theory Spec2Isabelle
  imports Complex_Main
begin

section \<open>The server actions of the dashboard\<close>

text \<open>
  The module under study is the file of server actions of the dashboard
  (\<^verbatim>\<open>'use server'\<close>, kept in \<^verbatim>\<open>src/app/dashboard/customers/page.tsx\<close> after the page
  component): the zod schemas, the seven mutation handlers \<^verbatim>\<open>createInvoice\<close>,
  \<^verbatim>\<open>updateInvoice\<close>, \<^verbatim>\<open>deleteInvoice\<close>, \<^verbatim>\<open>createCustomer\<close>, \<^verbatim>\<open>updateCustomer\<close>,
  \<^verbatim>\<open>deleteCustomer\<close>, \<^verbatim>\<open>createUser\<close>, and \<^verbatim>\<open>authenticate\<close>.

  The handlers are embedded as HOL functions. What they do beyond returning a value is
  explicit: the calls to the database, to the cache and to the identity provider are
  recorded in a list of effects, a \<^verbatim>\<open>redirect\<close> (which throws) and a re-thrown error are
  ways for a handler to complete, and the services the handlers call (the database, the
  identity provider, the password hash, the clock, the e-mail pattern of the schema
  library) are the fields of an environment.

  The JavaScript values, numbers and library functions the handlers use are modelled first.
\<close>

subsection \<open>JavaScript numbers\<close>

text \<open>
  A JavaScript number is an IEEE 754 binary64 value. \<open>Finite s m e\<close> is the value
  \<open>(-1)\<^sup>s * m * 2\<^sup>e\<close>; a value of the format has \<open>m < 2\<^sup>5\<^sup>3\<close> and \<open>-1074 \<le> e \<le> 971\<close>, and
  \<open>e = -1074\<close> when \<open>m < 2\<^sup>5\<^sup>2\<close> (zero and the subnormal numbers). Both zeros are kept apart.
\<close>

datatype jsnum = NaN | Infinity bool | Finite bool nat int

fun bit_length :: "nat \<Rightarrow> nat" where
  "bit_length n = (if n = 0 then 0 else Suc (bit_length (n div 2)))"

declare bit_length.simps [simp del]

text \<open>\<open>scale2 n d e\<close> is the fraction \<open>n / (d * 2\<^sup>e)\<close> as numerator and denominator.\<close>

definition scale2 :: "nat \<Rightarrow> nat \<Rightarrow> int \<Rightarrow> nat \<times> nat" where
  "scale2 n d e = (if 0 \<le> e then (n, d * 2 ^ nat e) else (n * 2 ^ nat (- e), d))"

text \<open>The integer nearest to a fraction, a tie going to the even one.\<close>

definition round_half_even :: "nat \<times> nat \<Rightarrow> nat" where
  "round_half_even nd =
     (let q = fst nd div snd nd; r = fst nd mod snd nd
      in if 2 * r < snd nd then q
         else if snd nd < 2 * r then q + 1
         else if even q then q else q + 1)"

text \<open>
  \<open>round_double s n d\<close> is the binary64 value nearest to \<open>(-1)\<^sup>s * n / d\<close> (for \<open>0 < d\<close>), ties to
  even: the exponent is chosen so that the scaled fraction lies in \<open>[2\<^sup>5\<^sup>2, 2\<^sup>5\<^sup>3)\<close>, but never
  below \<open>-1074\<close>; the scaled fraction is rounded to an integer; a significand rounded up to
  \<open>2\<^sup>5\<^sup>3\<close> moves to the next exponent; an exponent above \<open>971\<close> is an overflow to infinity.
\<close>

definition round_double :: "bool \<Rightarrow> nat \<Rightarrow> nat \<Rightarrow> jsnum" where
  "round_double neg n d =
     (if n = 0 then Finite neg 0 (- 1074)
      else
        let e0 = int (bit_length n) - int (bit_length d) - 53;
            e1 = (if 2 ^ 53 * snd (scale2 n d e0) \<le> fst (scale2 n d e0) then e0 + 1 else e0);
            e = max e1 (- 1074);
            m = round_half_even (scale2 n d e)
        in if m = 2 ^ 53
           then (if 971 < e + 1 then Infinity neg else Finite neg (2 ^ 52) (e + 1))
           else (if 971 < e then Infinity neg else Finite neg m e))"

definition num_of_nat :: "nat \<Rightarrow> jsnum" where
  "num_of_nat n = round_double False n 1"

text \<open>The operator \<^verbatim>\<open>*\<close> on numbers: the exact product, rounded.\<close>

definition num_times :: "jsnum \<Rightarrow> jsnum \<Rightarrow> jsnum" where
  "num_times a b =
     (case a of
        NaN \<Rightarrow> NaN
      | Infinity s \<Rightarrow>
          (case b of
             NaN \<Rightarrow> NaN
           | Infinity t \<Rightarrow> Infinity (s \<noteq> t)
           | Finite t k f \<Rightarrow> (if k = 0 then NaN else Infinity (s \<noteq> t)))
      | Finite s m e \<Rightarrow>
          (case b of
             NaN \<Rightarrow> NaN
           | Infinity t \<Rightarrow> (if m = 0 then NaN else Infinity (s \<noteq> t))
           | Finite t k f \<Rightarrow>
               (if 0 \<le> e + f then round_double (s \<noteq> t) (m * k * 2 ^ nat (e + f)) 1
                else round_double (s \<noteq> t) (m * k) (2 ^ nat (- (e + f))))))"

text \<open>The operator \<^verbatim>\<open><=\<close> on numbers; a comparison with \<^verbatim>\<open>NaN\<close> is false.\<close>

definition signed :: "bool \<Rightarrow> nat \<Rightarrow> int" where
  "signed s m = (if s then - int m else int m)"

definition num_le :: "jsnum \<Rightarrow> jsnum \<Rightarrow> bool" where
  "num_le a b =
     (case a of
        NaN \<Rightarrow> False
      | Infinity s \<Rightarrow>
          (case b of
             NaN \<Rightarrow> False
           | Infinity t \<Rightarrow> (if t then s else True)
           | Finite t k f \<Rightarrow> s)
      | Finite s m e \<Rightarrow>
          (case b of
             NaN \<Rightarrow> False
           | Infinity t \<Rightarrow> (if t then False else True)
           | Finite t k f \<Rightarrow>
               signed s m * 2 ^ nat (e - min e f) \<le> signed t k * 2 ^ nat (f - min e f)))"

text \<open>The exact value of a finite number, for statements about numeric results.\<close>

definition num_value :: "jsnum \<Rightarrow> rat option" where
  "num_value a =
     (case a of
        NaN \<Rightarrow> None
      | Infinity s \<Rightarrow> None
      | Finite s m e \<Rightarrow>
          Some (if 0 \<le> e then of_int (signed s m) * 2 ^ nat e
                else of_int (signed s m) / 2 ^ nat (- e)))"

subsection \<open>Strings to numbers\<close>

text \<open>
  \<^verbatim>\<open>Number(s)\<close> on a string (the abstract operation StringToNumber): white space is trimmed;
  the empty string is \<open>+0\<close>; a binary, octal or hexadecimal integer literal has no sign; a
  decimal literal is an optional sign and \<^verbatim>\<open>Infinity\<close> or digits with an optional fraction
  and an optional exponent; anything else is \<^verbatim>\<open>NaN\<close>. The value of the literal is rounded to
  the nearest number. Strings are sequences of \<open>char\<close>, so the white space characters
  above code 255 are outside the model.
\<close>

definition is_white :: "char \<Rightarrow> bool" where
  "is_white c = ((of_char c :: nat) \<in> {9, 10, 11, 12, 13, 32, 160})"

definition trim :: "string \<Rightarrow> string" where
  "trim s = rev (dropWhile is_white (rev (dropWhile is_white s)))"

definition is_digit :: "char \<Rightarrow> bool" where
  "is_digit c = (48 \<le> (of_char c :: nat) \<and> (of_char c :: nat) \<le> 57)"

definition radix_digit :: "char \<Rightarrow> nat option" where
  "radix_digit c =
     (let k = (of_char c :: nat)
      in if 48 \<le> k \<and> k \<le> 57 then Some (k - 48)
         else if 97 \<le> k \<and> k \<le> 102 then Some (k - 87)
         else if 65 \<le> k \<and> k \<le> 70 then Some (k - 55)
         else None)"

definition is_radix_digit :: "nat \<Rightarrow> char \<Rightarrow> bool" where
  "is_radix_digit b c = (case radix_digit c of None \<Rightarrow> False | Some v \<Rightarrow> v < b)"

definition digits_value :: "nat \<Rightarrow> string \<Rightarrow> nat" where
  "digits_value b ds = foldl (\<lambda>a c. a * b + (case radix_digit c of None \<Rightarrow> 0 | Some v \<Rightarrow> v)) 0 ds"

definition parse_radix :: "nat \<Rightarrow> string \<Rightarrow> jsnum" where
  "parse_radix b ds =
     (if ds \<noteq> [] \<and> list_all (is_radix_digit b) ds
      then round_double False (digits_value b ds) 1 else NaN)"

definition strip_sign :: "string \<Rightarrow> bool \<times> string" where
  "strip_sign s =
     (case s of
        [] \<Rightarrow> (False, [])
      | c # cs \<Rightarrow>
          if c = CHR ''-'' then (True, cs)
          else if c = CHR ''+'' then (False, cs)
          else (False, s))"

definition parse_exponent :: "string \<Rightarrow> int option" where
  "parse_exponent s =
     (let ds = snd (strip_sign s)
      in if ds \<noteq> [] \<and> list_all is_digit ds
         then Some (if fst (strip_sign s) then - int (digits_value 10 ds)
                    else int (digits_value 10 ds))
         else None)"

definition parse_unsigned_decimal :: "bool \<Rightarrow> string \<Rightarrow> jsnum" where
  "parse_unsigned_decimal neg s =
     (if s = ''Infinity'' then Infinity neg
      else
        let ip = takeWhile is_digit s;
            r1 = dropWhile is_digit s;
            has_dot = (r1 \<noteq> [] \<and> hd r1 = CHR ''.'');
            fp = (if has_dot then takeWhile is_digit (tl r1) else []);
            r2 = (if has_dot then dropWhile is_digit (tl r1) else r1);
            ex = (if r2 = [] then Some 0
                  else if hd r2 = CHR ''e'' \<or> hd r2 = CHR ''E'' then parse_exponent (tl r2)
                  else None)
        in if ip = [] \<and> fp = [] then NaN
           else
             (case ex of
                None \<Rightarrow> NaN
              | Some x \<Rightarrow>
                  let k = x - int (length fp); n = digits_value 10 (ip @ fp)
                  in if 0 \<le> k then round_double neg (n * 10 ^ nat k) 1
                     else round_double neg n (10 ^ nat (- k))))"

definition StringToNumber :: "string \<Rightarrow> jsnum" where
  "StringToNumber s =
     (let t = trim s
      in if t = [] then Finite False 0 (- 1074)
         else if take 2 t = ''0x'' \<or> take 2 t = ''0X'' then parse_radix 16 (drop 2 t)
         else if take 2 t = ''0o'' \<or> take 2 t = ''0O'' then parse_radix 8 (drop 2 t)
         else if take 2 t = ''0b'' \<or> take 2 t = ''0B'' then parse_radix 2 (drop 2 t)
         else parse_unsigned_decimal (fst (strip_sign t)) (snd (strip_sign t)))"

subsection \<open>JavaScript values and form submissions\<close>

text \<open>
  The values the handlers handle: \<^verbatim>\<open>undefined\<close>, \<^verbatim>\<open>null\<close>, strings, numbers, and the \<^verbatim>\<open>File\<close>
  objects a form submission may carry (with the file's name).
\<close>

datatype jsval = JUndefined | JNull | JStr string | JNum jsnum | JFile string

text \<open>\<^verbatim>\<open>Number(v)\<close>: a \<^verbatim>\<open>File\<close> is an object whose string form is not a numeric literal.\<close>

definition ToNumber :: "jsval \<Rightarrow> jsnum" where
  "ToNumber v =
     (case v of
        JUndefined \<Rightarrow> NaN
      | JNull \<Rightarrow> Finite False 0 (- 1074)
      | JStr s \<Rightarrow> StringToNumber s
      | JNum n \<Rightarrow> n
      | JFile f \<Rightarrow> NaN)"

text \<open>The operator \<^verbatim>\<open>*\<close> on values converts both operands to numbers.\<close>

definition js_times :: "jsval \<Rightarrow> jsval \<Rightarrow> jsval" where
  "js_times a b = JNum (num_times (ToNumber a) (ToNumber b))"

text \<open>
  A \<^verbatim>\<open>FormData\<close> is an ordered list of entries, each a name with a string or a file;
  \<^verbatim>\<open>formData.get(name)\<close> is the first entry of that name, or \<^verbatim>\<open>null\<close>.
\<close>

datatype FormDataEntryValue = Text string | File string

type_synonym FormData = "(string \<times> FormDataEntryValue) list"

definition formData_get :: "FormData \<Rightarrow> string \<Rightarrow> jsval" where
  "formData_get formData name =
     (case map_of formData name of
        None \<Rightarrow> JNull
      | Some (Text s) \<Rightarrow> JStr s
      | Some (File f) \<Rightarrow> JFile f)"

text \<open>An object literal is a list of properties; a property it does not have reads as \<^verbatim>\<open>undefined\<close>.\<close>

type_synonym jsobject = "(string \<times> jsval) list"

definition get_prop :: "jsobject \<Rightarrow> string \<Rightarrow> jsval" where
  "get_prop obj k = (case map_of obj k of None \<Rightarrow> JUndefined | Some v \<Rightarrow> v)"

subsection \<open>The schema library\<close>

text \<open>
  The part of zod (version 3) the schemas use. \<open>ZString e cs\<close> is \<^verbatim>\<open>z.string({invalid_type_error: e})\<close>
  with the checks \<open>cs\<close> (\<^verbatim>\<open>.min(n, {message})\<close>, \<^verbatim>\<open>.email({message})\<close>); \<open>ZCoerceNumber cs\<close> is
  \<^verbatim>\<open>z.coerce.number()\<close> with its checks (\<^verbatim>\<open>.gt(v, {message})\<close>); \<open>ZEnum vs e\<close> is
  \<^verbatim>\<open>z.enum(vs, {invalid_type_error: e})\<close>; \<open>ZOptional t\<close> is \<^verbatim>\<open>t.optional()\<close>. The texts of the
  messages no schema sets are zod's defaults. The pattern an e-mail address is matched
  against differs between releases of the library; it is a parameter.
\<close>

datatype scheck = Min nat "string option" | Email "string option"

datatype ncheck = Gt jsnum string

datatype ztype =
    ZString "string option" "scheck list"
  | ZCoerceNumber "ncheck list"
  | ZEnum "string list" "string option"
  | ZOptional ztype

type_synonym zobject = "(string \<times> ztype) list"

definition digit_char :: "nat \<Rightarrow> char" where
  "digit_char d = ''0123456789'' ! (d mod 10)"

fun decimal :: "nat \<Rightarrow> string" where
  "decimal n = (if n < 10 then [digit_char n] else decimal (n div 10) @ [digit_char n])"

declare decimal.simps [simp del]

definition parsed_type :: "jsval \<Rightarrow> string" where
  "parsed_type v =
     (case v of
        JUndefined \<Rightarrow> ''undefined''
      | JNull \<Rightarrow> ''null''
      | JStr s \<Rightarrow> ''string''
      | JNum n \<Rightarrow> (if n = NaN then ''nan'' else ''number'')
      | JFile f \<Rightarrow> ''object'')"

text \<open>
  The message of an issue \<^verbatim>\<open>invalid_type\<close>: \<^verbatim>\<open>Required\<close> for \<^verbatim>\<open>undefined\<close> (no schema sets
  \<^verbatim>\<open>required_error\<close>), else the schema's \<^verbatim>\<open>invalid_type_error\<close>, else the default text.
\<close>

definition invalid_type_message :: "string option \<Rightarrow> string \<Rightarrow> jsval \<Rightarrow> string" where
  "invalid_type_message custom expected v =
     (if v = JUndefined then ''Required''
      else case custom of
             Some m \<Rightarrow> m
           | None \<Rightarrow> ''Expected '' @ expected @ '', received '' @ parsed_type v)"

definition string_check :: "(string \<Rightarrow> bool) \<Rightarrow> string \<Rightarrow> scheck \<Rightarrow> string list" where
  "string_check email_re s c =
     (case c of
        Min n msg \<Rightarrow>
          if length s < n
          then [case msg of
                  Some m \<Rightarrow> m
                | None \<Rightarrow> ''String must contain at least '' @ decimal n @ '' character(s)'']
          else []
      | Email msg \<Rightarrow>
          if email_re s then []
          else [case msg of Some m \<Rightarrow> m | None \<Rightarrow> ''Invalid email''])"

definition number_check :: "jsnum \<Rightarrow> ncheck \<Rightarrow> string list" where
  "number_check x c = (case c of Gt v msg \<Rightarrow> if num_le x v then [msg] else [])"

definition quote :: "string \<Rightarrow> string" where
  "quote s = CHR 0x27 # s @ [CHR 0x27]"

fun join_values :: "string list \<Rightarrow> string" where
  "join_values [] = []"
| "join_values [v] = quote v"
| "join_values (v # w # vs) = quote v @ '' | '' @ join_values (w # vs)"

text \<open>
  Parsing one value: the messages of its issues, or the parsed value. A string or a number
  of the wrong type has the one issue \<^verbatim>\<open>invalid_type\<close>; otherwise every check that fails adds
  its issue. \<^verbatim>\<open>optional()\<close> lets \<^verbatim>\<open>undefined\<close> through and hands every other value,
  \<^verbatim>\<open>null\<close> too, to the inner schema.
\<close>

fun zparse :: "(string \<Rightarrow> bool) \<Rightarrow> ztype \<Rightarrow> jsval \<Rightarrow> string list + jsval" where
  "zparse email_re (ZString e cs) v =
     (case v of
        JStr s \<Rightarrow>
          (let msgs = concat (map (string_check email_re s) cs)
           in if msgs = [] then Inr v else Inl msgs)
      | _ \<Rightarrow> Inl [invalid_type_message e ''string'' v])"
| "zparse email_re (ZCoerceNumber cs) v =
     (let x = ToNumber v
      in if x = NaN then Inl [invalid_type_message None ''number'' (JNum x)]
         else
           (let msgs = concat (map (number_check x) cs)
            in if msgs = [] then Inr (JNum x) else Inl msgs))"
| "zparse email_re (ZEnum vs e) v =
     (case v of
        JStr s \<Rightarrow>
          if s \<in> set vs then Inr v
          else Inl [''Invalid enum value. Expected '' @ join_values vs @ '', received '' @ quote s]
      | _ \<Rightarrow> Inl [invalid_type_message e (join_values vs) v])"
| "zparse email_re (ZOptional t) v =
     (if v = JUndefined then Inr JUndefined else zparse email_re t v)"

text \<open>\<^verbatim>\<open>schema.omit({k: true, ...})\<close>: the shape without the named keys.\<close>

definition omit :: "string list \<Rightarrow> zobject \<Rightarrow> zobject" where
  "omit ks shape = filter (\<lambda>kt. fst kt \<notin> set ks) shape"

text \<open>
  \<^verbatim>\<open>schema.safeParse(obj)\<close> on an object schema: every key of the shape is parsed, in the
  order of the shape, from the property of that name; keys of the object the shape does
  not have are dropped. The issues are pairs of the key and the message.
\<close>

datatype SafeParseReturn =
    SafeParseSuccess jsobject
  | SafeParseError "(string \<times> string) list"

definition parse_keys :: "(string \<Rightarrow> bool) \<Rightarrow> zobject \<Rightarrow> jsobject \<Rightarrow> (string \<times> (string list + jsval)) list" where
  "parse_keys email_re shape obj = map (\<lambda>kt. (fst kt, zparse email_re (snd kt) (get_prop obj (fst kt)))) shape"

definition issues_of :: "(string \<times> (string list + jsval)) list \<Rightarrow> (string \<times> string) list" where
  "issues_of rs = concat (map (\<lambda>kr. case snd kr of Inl msgs \<Rightarrow> map (Pair (fst kr)) msgs | Inr v \<Rightarrow> []) rs)"

definition data_of :: "jsobject \<Rightarrow> (string \<times> (string list + jsval)) list \<Rightarrow> jsobject" where
  "data_of obj rs =
     concat (map (\<lambda>kr. case snd kr of
                          Inl msgs \<Rightarrow> []
                        | Inr v \<Rightarrow> if v \<noteq> JUndefined \<or> fst kr \<in> fst ` set obj then [(fst kr, v)] else []) rs)"

definition safeParse :: "(string \<Rightarrow> bool) \<Rightarrow> zobject \<Rightarrow> jsobject \<Rightarrow> SafeParseReturn" where
  "safeParse email_re shape obj =
     (let rs = parse_keys email_re shape obj
      in if issues_of rs = [] then SafeParseSuccess (data_of obj rs)
         else SafeParseError (issues_of rs))"

text \<open>
  \<^verbatim>\<open>error.flatten().fieldErrors\<close>: for every key with an issue, its messages in order; the
  keys in the order of their first issue.
\<close>

definition add_field_error :: "(string \<times> string list) list \<Rightarrow> string \<times> string \<Rightarrow> (string \<times> string list) list" where
  "add_field_error fe km =
     (if fst km \<in> fst ` set fe
      then map (\<lambda>e. if fst e = fst km then (fst e, snd e @ [snd km]) else e) fe
      else fe @ [(fst km, [snd km])])"

definition fieldErrors :: "(string \<times> string) list \<Rightarrow> (string \<times> string list) list" where
  "fieldErrors issues = foldl add_field_error [] issues"

subsection \<open>Dates\<close>

text \<open>
  A \<^verbatim>\<open>Date\<close> is its time value, the milliseconds since the epoch. \<^verbatim>\<open>toISOString()\<close> renders
  the UTC date and time as \<^verbatim>\<open>YYYY-MM-DDTHH:mm:ss.sssZ\<close>, a year outside \<open>0..9999\<close> with a
  sign and six digits. \<open>civil_of_days\<close> is the year, month and day of a day number.
\<close>

definition civil_of_days :: "int \<Rightarrow> int \<times> int \<times> int" where
  "civil_of_days days =
     (let z = days + 719468;
          era = z div 146097;
          doe = z mod 146097;
          yoe = (doe - doe div 1460 + doe div 36524 - doe div 146096) div 365;
          doy = doe - (365 * yoe + yoe div 4 - yoe div 100);
          mp = (5 * doy + 2) div 153;
          d = doy - (153 * mp + 2) div 5 + 1;
          m = (if mp < 10 then mp + 3 else mp - 9);
          y = yoe + era * 400
      in (if m \<le> 2 then y + 1 else y, m, d))"

primrec pad :: "nat \<Rightarrow> nat \<Rightarrow> string" where
  "pad 0 n = []"
| "pad (Suc w) n = pad w (n div 10) @ [digit_char n]"

definition iso_year :: "int \<Rightarrow> string" where
  "iso_year y =
     (if 0 \<le> y \<and> y \<le> 9999 then pad 4 (nat y)
      else (if y < 0 then ''-'' else ''+'') @ pad 6 (nat \<bar>y\<bar>))"

definition iso_date :: "int \<Rightarrow> string" where
  "iso_date t =
     (case civil_of_days (t div 86400000) of
        (y, m, d) \<Rightarrow> iso_year y @ ''-'' @ pad 2 (nat m) @ ''-'' @ pad 2 (nat d))"

definition iso_time :: "int \<Rightarrow> string" where
  "iso_time t =
     (let ms = nat (t mod 86400000)
      in pad 2 (ms div 3600000) @ '':'' @ pad 2 (ms div 60000 mod 60) @ '':''
         @ pad 2 (ms div 1000 mod 60) @ ''.'' @ pad 3 (ms mod 1000))"

definition toISOString :: "int \<Rightarrow> string" where
  "toISOString t = iso_date t @ ''T'' @ iso_time t @ ''Z''"

text \<open>\<^verbatim>\<open>s.split(sep)[0]\<close> for a separator of one character: the text before its first occurrence.\<close>

definition split_first :: "char \<Rightarrow> string \<Rightarrow> string" where
  "split_first sep s = takeWhile (\<lambda>c. c \<noteq> sep) s"

subsection \<open>The environment, effects and results\<close>

text \<open>
  An error a call may throw is an \<^verbatim>\<open>AuthError\<close> of next-auth, with its \<^verbatim>\<open>type\<close>, or any other
  error. A statement of the tagged template \<^verbatim>\<open>sql\<close> is its text, with \<^verbatim>\<open>$1\<close>, \<^verbatim>\<open>$2\<close>, ... for
  the interpolated values (white space normalised), and the values bound to them.
\<close>

datatype jserror = AuthError string | OtherError string

record stmt =
  sql_text :: string
  sql_params :: "jsval list"

text \<open>
  The services: \<open>email_re\<close> is the e-mail pattern of the schema library; \<open>sql\<close> runs a
  statement and tells the error it throws, if any; \<open>bcrypt_hash\<close> is \<^verbatim>\<open>bcrypt.hash\<close>;
  \<open>signIn\<close> is the provider call and tells the error it throws, if any; \<open>now\<close> is the time
  value of \<^verbatim>\<open>new Date()\<close>.
\<close>

record env =
  email_re :: "string \<Rightarrow> bool"
  sql :: "stmt \<Rightarrow> jserror option"
  bcrypt_hash :: "jsval \<Rightarrow> nat \<Rightarrow> jsval"
  signIn :: "string \<Rightarrow> FormData \<Rightarrow> jserror option"
  now :: int

datatype effect =
    Sql stmt
  | RevalidatePath string
  | ConsoleLog "jsval list"
  | SignIn string FormData

text \<open>
  A call completes by returning a value, by the \<^verbatim>\<open>redirect\<close> to a path (which throws, past
  every statement that follows), or by throwing an error.
\<close>

datatype 'a completion = Returned 'a | Redirected string | Thrown jserror

text \<open>
  What a call of a handler does: how it completes, the effects it has had by then, in
  order, and the calls of asynchronous functions it has started and not awaited, each
  with the way it completes later, unobserved by the handler.
\<close>

record 'a run =
  outcome :: "'a completion"
  effects :: "effect list"
  detached :: "string option completion list"

text \<open>The state objects the handlers return (\<^verbatim>\<open>InvoiceState\<close>, \<^verbatim>\<open>CustomerState\<close>, \<^verbatim>\<open>UserState\<close>).\<close>

record State =
  errors :: "(string \<times> string list) list option"
  message :: "string option"

subsection \<open>The schemas\<close>

definition UserSchema :: zobject where
  "UserSchema =
     [(''id'', ZString None []),
      (''name'', ZString None []),
      (''email'', ZString None [Email None]),
      (''password'', ZString None [Min 8 None]),
      (''created_at'', ZString None [])]"

definition InvoiceFormSchema :: zobject where
  "InvoiceFormSchema =
     [(''id'', ZString None []),
      (''customerId'', ZString (Some ''Please select a customer.'') []),
      (''amount'', ZCoerceNumber [Gt (num_of_nat 0) ''Please enter an amount greater than $0.'']),
      (''status'', ZEnum [''pending'', ''paid''] (Some ''Please select an invoice status.'')),
      (''date'', ZString None [])]"

definition CustomerFormSchema :: zobject where
  "CustomerFormSchema =
     [(''id'', ZString None []),
      (''name'', ZString None [Min 4 (Some ''Please enter your full name.'')]),
      (''email'', ZString None [Email (Some ''Please enter a valid email address.'')]),
      (''image'', ZOptional (ZString None []))]"

definition CreateCustomer :: zobject where
  "CreateCustomer = omit [''id''] CustomerFormSchema"

definition CreateInvoice :: zobject where
  "CreateInvoice = omit [''id'', ''date''] InvoiceFormSchema"

definition CreateUser :: zobject where
  "CreateUser = omit [''id'', ''created_at''] UserSchema"

definition UpdateInvoice :: zobject where
  "UpdateInvoice = omit [''id'', ''date''] InvoiceFormSchema"

subsection \<open>The handlers\<close>

text \<open>
  Each handler with a form is in two parts: the validation with its early return, and the
  statements after it (\<open>_validated\<close>), which run on the parsed data. \<open>prevState\<close> is the
  first (for the updates, the second) parameter, as in the source; the parameter \<^verbatim>\<open>id\<close> is
  written \<open>id'\<close>.
\<close>

definition validation_failed :: "string \<Rightarrow> (string \<times> string) list \<Rightarrow> State run" where
  "validation_failed msg issues =
     \<lparr>outcome = Returned \<lparr>errors = Some (fieldErrors issues), message = Some msg\<rparr>,
      effects = [], detached = []\<rparr>"

definition createInvoice_validated :: "env \<Rightarrow> jsobject \<Rightarrow> State run" where
  "createInvoice_validated E data =
     (let customerId = get_prop data ''customerId'';
          amount = get_prop data ''amount'';
          status = get_prop data ''status'';
          amountInCents = js_times amount (JNum (num_of_nat 100));
          date = JStr (split_first CHR ''T'' (toISOString (now E)));
          q = \<lparr>sql_text = ''INSERT INTO invoices (customer_id, amount, status, date) VALUES ($1, $2, $3, $4)'',
               sql_params = [customerId, amountInCents, status, date]\<rparr>
      in case sql E q of
           Some error \<Rightarrow>
             \<lparr>outcome = Returned \<lparr>errors = None, message = Some ''Database Error: Failed to Create Invoice.''\<rparr>,
              effects = [Sql q], detached = []\<rparr>
         | None \<Rightarrow>
             \<lparr>outcome = Redirected ''/dashboard/invoices'',
              effects = [Sql q, RevalidatePath ''/dashboard/invoices''], detached = []\<rparr>)"

definition createInvoice :: "env \<Rightarrow> State \<Rightarrow> FormData \<Rightarrow> State run" where
  "createInvoice E prevState formData =
     (case safeParse (email_re E) CreateInvoice
             [(''customerId'', formData_get formData ''customerId''),
              (''amount'', formData_get formData ''amount''),
              (''status'', formData_get formData ''status'')] of
        SafeParseError issues \<Rightarrow> validation_failed ''Missing Fields. Failed to Create Invoice.'' issues
      | SafeParseSuccess data \<Rightarrow> createInvoice_validated E data)"

definition updateInvoice_validated :: "env \<Rightarrow> string \<Rightarrow> jsobject \<Rightarrow> State run" where
  "updateInvoice_validated E id' data =
     (let customerId = get_prop data ''customerId'';
          amount = get_prop data ''amount'';
          status = get_prop data ''status'';
          amountInCents = js_times amount (JNum (num_of_nat 100));
          q = \<lparr>sql_text = ''UPDATE invoices SET customer_id = $1, amount = $2, status = $3 WHERE id = $4'',
               sql_params = [customerId, amountInCents, status, JStr id']\<rparr>
      in case sql E q of
           Some error \<Rightarrow>
             \<lparr>outcome = Returned \<lparr>errors = None, message = Some ''Database Error: Failed to Update Invoice.''\<rparr>,
              effects = [Sql q], detached = []\<rparr>
         | None \<Rightarrow>
             \<lparr>outcome = Redirected ''/dashboard/invoices'',
              effects = [Sql q, RevalidatePath ''/dashboard/invoices''], detached = []\<rparr>)"

definition updateInvoice :: "env \<Rightarrow> string \<Rightarrow> State \<Rightarrow> FormData \<Rightarrow> State run" where
  "updateInvoice E id' prevState formData =
     (case safeParse (email_re E) UpdateInvoice
             [(''customerId'', formData_get formData ''customerId''),
              (''amount'', formData_get formData ''amount''),
              (''status'', formData_get formData ''status'')] of
        SafeParseError issues \<Rightarrow> validation_failed ''Missing Fields. Failed to Update Invoice.'' issues
      | SafeParseSuccess data \<Rightarrow> updateInvoice_validated E id' data)"

text \<open>
  The delete handlers: the statement, the invalidation and the \<^verbatim>\<open>return\<close> are inside the
  \<^verbatim>\<open>try\<close>; an error of the statement is caught.
\<close>

definition deleteInvoice :: "env \<Rightarrow> string \<Rightarrow> State run" where
  "deleteInvoice E id' =
     (let q = \<lparr>sql_text = ''DELETE FROM invoices WHERE id = $1'', sql_params = [JStr id']\<rparr>
      in case sql E q of
           Some error \<Rightarrow>
             \<lparr>outcome = Returned \<lparr>errors = None, message = Some ''Database Error: Failed to Delete Invoice.''\<rparr>,
              effects = [Sql q], detached = []\<rparr>
         | None \<Rightarrow>
             \<lparr>outcome = Returned \<lparr>errors = None, message = Some ''Deleted Invoice.''\<rparr>,
              effects = [Sql q, RevalidatePath ''/dashboard/invoices''], detached = []\<rparr>)"

definition createCustomer_validated :: "env \<Rightarrow> jsobject \<Rightarrow> State run" where
  "createCustomer_validated E data =
     (let name = get_prop data ''name'';
          email = get_prop data ''email'';
          image = get_prop data ''image'';
          q = \<lparr>sql_text = ''INSERT INTO customers (name, email, image_url) VALUES ($1, $2, $3 )'',
               sql_params = [name, email, image]\<rparr>
      in case sql E q of
           Some error \<Rightarrow>
             \<lparr>outcome = Returned \<lparr>errors = None, message = Some ''Database Error: Failed to Create Customer.''\<rparr>,
              effects = [Sql q], detached = []\<rparr>
         | None \<Rightarrow>
             \<lparr>outcome = Redirected ''/dashboard/customers'',
              effects = [Sql q, RevalidatePath ''/dashboard/customers''], detached = []\<rparr>)"

definition createCustomer :: "env \<Rightarrow> State \<Rightarrow> FormData \<Rightarrow> State run" where
  "createCustomer E prevState formData =
     (case safeParse (email_re E) CreateCustomer
             [(''name'', formData_get formData ''name''),
              (''email'', formData_get formData ''email''),
              (''image'', formData_get formData ''image'')] of
        SafeParseError issues \<Rightarrow> validation_failed ''Missing Fields. Failed to Create Customer.'' issues
      | SafeParseSuccess data \<Rightarrow> createCustomer_validated E data)"

definition updateCustomer_validated :: "env \<Rightarrow> string \<Rightarrow> jsobject \<Rightarrow> State run" where
  "updateCustomer_validated E id' data =
     (let name = get_prop data ''name'';
          email = get_prop data ''email'';
          image = get_prop data ''image'';
          q = \<lparr>sql_text = ''UPDATE customers SET name = $1, email = $2, image_url = $3 WHERE id = $4'',
               sql_params = [name, email, image, JStr id']\<rparr>
      in case sql E q of
           Some error \<Rightarrow>
             \<lparr>outcome = Returned \<lparr>errors = None, message = Some ''Database Error: Failed to Update Customer.''\<rparr>,
              effects = [Sql q], detached = []\<rparr>
         | None \<Rightarrow>
             \<lparr>outcome = Redirected ''/dashboard/customers'',
              effects = [Sql q, RevalidatePath ''/dashboard/customers''], detached = []\<rparr>)"

text \<open>\<^verbatim>\<open>updateCustomer\<close> parses with \<^verbatim>\<open>CustomerFormSchema\<close> itself.\<close>

definition updateCustomer :: "env \<Rightarrow> string \<Rightarrow> State \<Rightarrow> FormData \<Rightarrow> State run" where
  "updateCustomer E id' prevState formData =
     (case safeParse (email_re E) CustomerFormSchema
             [(''name'', formData_get formData ''name''),
              (''email'', formData_get formData ''email''),
              (''image'', formData_get formData ''image'')] of
        SafeParseError issues \<Rightarrow> validation_failed ''Missing Fields. Failed to Update Customer.'' issues
      | SafeParseSuccess data \<Rightarrow> updateCustomer_validated E id' data)"

definition deleteCustomer :: "env \<Rightarrow> string \<Rightarrow> State run" where
  "deleteCustomer E id' =
     (let q = \<lparr>sql_text = ''DELETE FROM customers WHERE id = $1'', sql_params = [JStr id']\<rparr>
      in case sql E q of
           Some error \<Rightarrow>
             \<lparr>outcome = Returned \<lparr>errors = None, message = Some ''Database Error: Failed to Delete Customer.''\<rparr>,
              effects = [Sql q], detached = []\<rparr>
         | None \<Rightarrow>
             \<lparr>outcome = Returned \<lparr>errors = None, message = Some ''Deleted Customer.''\<rparr>,
              effects = [Sql q, RevalidatePath ''/dashboard/customers''], detached = []\<rparr>)"

text \<open>
  \<^verbatim>\<open>authenticate\<close> awaits the provider call. An \<^verbatim>\<open>AuthError\<close> becomes a message that is
  returned; any other error is thrown again; when the call throws nothing the function
  returns \<^verbatim>\<open>undefined\<close>.
\<close>

definition authenticate :: "env \<Rightarrow> string option \<Rightarrow> FormData \<Rightarrow> string option run" where
  "authenticate E prevState formData =
     \<lparr>outcome =
        (case signIn E ''credentials'' formData of
           None \<Rightarrow> Returned None
         | Some error \<Rightarrow>
             (case error of
                AuthError type \<Rightarrow>
                  if type = ''CredentialsSignin'' then Returned (Some ''Invalid credentials.'')
                  else Returned (Some ''Something went wrong.'')
              | OtherError x \<Rightarrow> Thrown error)),
      effects = [SignIn ''credentials'' formData],
      detached = []\<rparr>"

text \<open>
  \<^verbatim>\<open>createUser\<close> calls \<^verbatim>\<open>authenticate(undefined, formData)\<close> with no \<^verbatim>\<open>await\<close>: the call
  runs up to the \<^verbatim>\<open>await\<close> in \<^verbatim>\<open>authenticate\<close>, so the provider call is made, and
  \<^verbatim>\<open>createUser\<close> goes on with the promise dropped. How that promise settles is the only
  member of \<open>detached\<close>.
\<close>

definition createUser_validated :: "env \<Rightarrow> FormData \<Rightarrow> jsobject \<Rightarrow> State run" where
  "createUser_validated E formData data =
     (let name = get_prop data ''name'';
          email = get_prop data ''email'';
          password = get_prop data ''password'';
          hashedPassword = bcrypt_hash E password 10;
          q = \<lparr>sql_text = ''INSERT INTO users (email, password, name) VALUES ($1, $2, $3 )'',
               sql_params = [email, hashedPassword, name]\<rparr>
      in case sql E q of
           Some error \<Rightarrow>
             \<lparr>outcome = Returned \<lparr>errors = None, message = Some ''Database Error: Failed to Create User.''\<rparr>,
              effects = [ConsoleLog [email, hashedPassword], Sql q], detached = []\<rparr>
         | None \<Rightarrow>
             (let a = authenticate E None formData
              in \<lparr>outcome = Redirected ''/dashboard'',
                  effects = [ConsoleLog [email, hashedPassword], Sql q] @ effects a
                            @ [RevalidatePath ''/dashboard''],
                  detached = [outcome a]\<rparr>))"

definition createUser :: "env \<Rightarrow> State \<Rightarrow> FormData \<Rightarrow> State run" where
  "createUser E prevState formData =
     (case safeParse (email_re E) CreateUser
             [(''name'', formData_get formData ''name''),
              (''email'', formData_get formData ''email''),
              (''password'', formData_get formData ''password'')] of
        SafeParseError issues \<Rightarrow> validation_failed ''Missing Fields. Failed to Create User.'' issues
      | SafeParseSuccess data \<Rightarrow> createUser_validated E formData data)"

text \<open>The statements a run has issued, in order.\<close>

fun statements :: "effect list \<Rightarrow> stmt list" where
  "statements [] = []"
| "statements (Sql q # es) = q # statements es"
| "statements (e # es) = statements es"

subsection \<open>The validation rules as the specification words them\<close>

text \<open>
  Section 4.1 of the specification gives one rule per field: \<^verbatim>\<open>customerId\<close> is a non-empty
  string; \<^verbatim>\<open>amount\<close>, coerced to a number, is greater than 0; \<^verbatim>\<open>status\<close> is \<^verbatim>\<open>pending\<close> or
  \<^verbatim>\<open>paid\<close>; the \<^verbatim>\<open>name\<close> of a customer is a string of length at least 4; an \<^verbatim>\<open>email\<close> has
  valid e-mail syntax; a \<^verbatim>\<open>password\<close> is a string of length at least 8. \<open>is_string\<close> is the
  weaker reading of the first rule.
\<close>

definition is_string :: "jsval \<Rightarrow> bool" where
  "is_string v = (case v of JStr s \<Rightarrow> True | _ \<Rightarrow> False)"

definition rule_customerId :: "jsval \<Rightarrow> bool" where
  "rule_customerId v = (case v of JStr s \<Rightarrow> s \<noteq> [] | _ \<Rightarrow> False)"

definition rule_amount :: "jsval \<Rightarrow> bool" where
  "rule_amount v = (ToNumber v \<noteq> NaN \<and> \<not> num_le (ToNumber v) (num_of_nat 0))"

definition rule_status :: "jsval \<Rightarrow> bool" where
  "rule_status v = (v = JStr ''pending'' \<or> v = JStr ''paid'')"

definition rule_name :: "jsval \<Rightarrow> bool" where
  "rule_name v = (case v of JStr s \<Rightarrow> 4 \<le> length s | _ \<Rightarrow> False)"

definition rule_email :: "(string \<Rightarrow> bool) \<Rightarrow> jsval \<Rightarrow> bool" where
  "rule_email email_syntax v = (case v of JStr s \<Rightarrow> email_syntax s | _ \<Rightarrow> False)"

definition rule_password :: "jsval \<Rightarrow> bool" where
  "rule_password v = (case v of JStr s \<Rightarrow> 8 \<le> length s | _ \<Rightarrow> False)"

text \<open>
  The specification has the amount that is bound into a statement equal the submitted
  amount times 100 exactly: \<open>exact_cents v b\<close> says so of the submitted value \<open>v\<close>, read as a
  number, and the bound value \<open>b\<close>.
\<close>

definition exact_cents :: "jsval \<Rightarrow> jsval \<Rightarrow> bool" where
  "exact_cents v b =
     (case num_value (ToNumber v) of
        None \<Rightarrow> False
      | Some r \<Rightarrow> (case b of JNum x \<Rightarrow> num_value x = Some (100 * r) | _ \<Rightarrow> False))"

text \<open>
  A run that is the outcome of a failed validation as the specification describes it: a
  state with a map of errors that is not empty and the given message is returned, and
  nothing has been done.
\<close>

definition reports_validation_failure :: "string \<Rightarrow> State run \<Rightarrow> bool" where
  "reports_validation_failure msg r =
     (case outcome r of
        Returned st \<Rightarrow>
          (case errors st of None \<Rightarrow> False | Some fe \<Rightarrow> fe \<noteq> []) \<and> message st = Some msg
          \<and> effects r = [] \<and> detached r = []
      | Redirected p \<Rightarrow> False
      | Thrown e \<Rightarrow> False)"

text \<open>The fields of the error map of a returned state (none when there is no map).\<close>

definition error_fields :: "State run \<Rightarrow> string set" where
  "error_fields r =
     (case outcome r of
        Returned st \<Rightarrow> (case errors st of None \<Rightarrow> {} | Some fe \<Rightarrow> fst ` set fe)
      | Redirected p \<Rightarrow> {}
      | Thrown e \<Rightarrow> {})"

subsection \<open>User creation as the specification words it\<close>

text \<open>
  The specification has \<^verbatim>\<open>createUser\<close> wait for \<^verbatim>\<open>authenticate\<close> before it invalidates the
  cache and redirects. \<open>createUser_validated_awaiting\<close> is \<open>createUser_validated\<close> with
  \<^verbatim>\<open>await authenticate(undefined, formData)\<close>: an error \<^verbatim>\<open>authenticate\<close> throws again ends
  the handler, and nothing is left detached.
\<close>

definition createUser_validated_awaiting :: "env \<Rightarrow> FormData \<Rightarrow> jsobject \<Rightarrow> State run" where
  "createUser_validated_awaiting E formData data =
     (let name = get_prop data ''name'';
          email = get_prop data ''email'';
          password = get_prop data ''password'';
          hashedPassword = bcrypt_hash E password 10;
          q = \<lparr>sql_text = ''INSERT INTO users (email, password, name) VALUES ($1, $2, $3 )'',
               sql_params = [email, hashedPassword, name]\<rparr>
      in case sql E q of
           Some error \<Rightarrow>
             \<lparr>outcome = Returned \<lparr>errors = None, message = Some ''Database Error: Failed to Create User.''\<rparr>,
              effects = [ConsoleLog [email, hashedPassword], Sql q], detached = []\<rparr>
         | None \<Rightarrow>
             (let a = authenticate E None formData
              in case outcome a of
                   Returned r \<Rightarrow>
                     \<lparr>outcome = Redirected ''/dashboard'',
                      effects = [ConsoleLog [email, hashedPassword], Sql q] @ effects a
                                @ [RevalidatePath ''/dashboard''],
                      detached = []\<rparr>
                 | Redirected p \<Rightarrow>
                     \<lparr>outcome = Redirected p,
                      effects = [ConsoleLog [email, hashedPassword], Sql q] @ effects a,
                      detached = []\<rparr>
                 | Thrown e \<Rightarrow>
                     \<lparr>outcome = Thrown e,
                      effects = [ConsoleLog [email, hashedPassword], Sql q] @ effects a,
                      detached = []\<rparr>))"

subsection \<open>A sample environment\<close>

text \<open>
  The e-mail pattern of zod 3.22, without regard to case: the text does not start with a
  dot and has no two dots in a row; before the \<^verbatim>\<open>@\<close> come characters of
  \<^verbatim>\<open>[A-Z0-9_+-\.]\<close> and then one of \<^verbatim>\<open>[A-Z0-9_+-]\<close>; after it come one or more labels
  \<^verbatim>\<open>[A-Z0-9][A-Z0-9\-]*\<close>, each followed by a dot, and two or more letters.
\<close>

definition is_letter :: "char \<Rightarrow> bool" where
  "is_letter c = ((65 \<le> (of_char c :: nat) \<and> (of_char c :: nat) \<le> 90)
                  \<or> (97 \<le> (of_char c :: nat) \<and> (of_char c :: nat) \<le> 122))"

definition is_alnum :: "char \<Rightarrow> bool" where
  "is_alnum c = (is_letter c \<or> is_digit c)"

definition local_char :: "char \<Rightarrow> bool" where
  "local_char c = (is_alnum c \<or> c = CHR ''_'' \<or> (43 \<le> (of_char c :: nat) \<and> (of_char c :: nat) \<le> 46))"

definition local_last_char :: "char \<Rightarrow> bool" where
  "local_last_char c = (is_alnum c \<or> c = CHR ''_'' \<or> c = CHR ''+'' \<or> c = CHR ''-'')"

definition domain_label :: "string \<Rightarrow> bool" where
  "domain_label l =
     (case l of
        [] \<Rightarrow> False
      | c # cs \<Rightarrow> is_alnum c \<and> list_all (\<lambda>d. is_alnum d \<or> d = CHR ''-'') cs)"

definition top_label :: "string \<Rightarrow> bool" where
  "top_label l = (2 \<le> length l \<and> list_all is_letter l)"

fun split_on :: "char \<Rightarrow> string \<Rightarrow> string list" where
  "split_on sep [] = [[]]"
| "split_on sep (c # cs) =
     (if c = sep then [] # split_on sep cs
      else (case split_on sep cs of [] \<Rightarrow> [[c]] | l # ls \<Rightarrow> (c # l) # ls))"

fun has_double_dot :: "string \<Rightarrow> bool" where
  "has_double_dot (a # b # cs) = ((a = CHR ''.'' \<and> b = CHR ''.'') \<or> has_double_dot (b # cs))"
| "has_double_dot cs = False"

definition zod_email :: "string \<Rightarrow> bool" where
  "zod_email s =
     (case dropWhile (\<lambda>c. c \<noteq> CHR ''@'') s of
        [] \<Rightarrow> False
      | c # host \<Rightarrow>
          (case rev (takeWhile (\<lambda>c. c \<noteq> CHR ''@'') s) of
             [] \<Rightarrow> False
           | l # rloc \<Rightarrow>
               take 1 s \<noteq> ''.'' \<and> \<not> has_double_dot s
               \<and> list_all local_char rloc \<and> local_last_char l
               \<and> (case rev (split_on CHR ''.'' host) of
                     [] \<Rightarrow> False
                   | t # rlabels \<Rightarrow> rlabels \<noteq> [] \<and> list_all domain_label rlabels \<and> top_label t)))"

text \<open>
  An environment to run the handlers in: the database accepts every statement, the
  provider refuses the credentials, the hash is a fixed text, the clock reads
  2023-11-14T22:13:20.000Z. \<open>failing_db\<close> is the same with a database that refuses every
  statement.
\<close>

definition sample_env :: env where
  "sample_env =
     \<lparr>email_re = zod_email,
      sql = (\<lambda>q. None),
      bcrypt_hash = (\<lambda>v cost. JStr ''$2b$10$abcdefghijklmnopqrstuu''),
      signIn = (\<lambda>provider formData. Some (AuthError ''CredentialsSignin'')),
      now = 1700000000000\<rparr>"

definition failing_db :: env where
  "failing_db = sample_env\<lparr>sql := (\<lambda>q. Some (OtherError ''connection refused''))\<rparr>"

definition no_state :: State where
  "no_state = \<lparr>errors = None, message = None\<rparr>"

text \<open>Submissions to run the handlers on.\<close>

definition invoice_form :: FormData where
  "invoice_form = [(''customerId'', Text ''c1''), (''amount'', Text ''12.50''), (''status'', Text ''pending'')]"

definition dated_form :: FormData where
  "dated_form = (''date'', Text ''1999-12-31'') # invoice_form"

definition zero_amount_form :: FormData where
  "zero_amount_form = [(''customerId'', Text ''c1''), (''amount'', Text ''0''), (''status'', Text ''pending'')]"

definition no_customer_form :: FormData where
  "no_customer_form = [(''customerId'', Text []), (''amount'', Text ''12.50''), (''status'', Text ''pending'')]"

definition cents_form :: FormData where
  "cents_form = [(''customerId'', Text ''c1''), (''amount'', Text ''0.07''), (''status'', Text ''paid'')]"

definition jane_form :: FormData where
  "jane_form = [(''name'', Text ''Jane Doe''), (''email'', Text ''jane@x.com'')]"

definition jane_form_with_image :: FormData where
  "jane_form_with_image = jane_form @ [(''image'', Text ''/customers/jane.png'')]"

definition short_name_form :: FormData where
  "short_name_form = [(''name'', Text ''Jan''), (''email'', Text ''jane@x.com''), (''image'', Text ''/customers/jane.png'')]"

definition user_form :: FormData where
  "user_form = [(''name'', Text ''Jane Doe''), (''email'', Text ''jane@x.com''), (''password'', Text ''correct horse'')]"

definition short_password_form :: FormData where
  "short_password_form = [(''name'', Text ''Jane Doe''), (''email'', Text ''jane@x.com''), (''password'', Text ''horse'')]"

section \<open>Properties\<close>



subsection \<open>The schemas on the objects the handlers build\<close>

text \<open>
  The shapes of the derived schemas, what parsing one field gives in terms of the rule of
  the field, and what \<open>safeParse\<close> gives on the object each handler builds.
\<close>

lemma CreateInvoice_shape:
  "CreateInvoice =
     [(''customerId'', ZString (Some ''Please select a customer.'') []),
      (''amount'', ZCoerceNumber [Gt (num_of_nat 0) ''Please enter an amount greater than $0.'']),
      (''status'', ZEnum [''pending'', ''paid''] (Some ''Please select an invoice status.''))]"
  by (simp add: CreateInvoice_def InvoiceFormSchema_def omit_def)

lemma UpdateInvoice_shape: "UpdateInvoice = CreateInvoice"
  by (simp add: CreateInvoice_def UpdateInvoice_def)

lemma CreateCustomer_shape:
  "CreateCustomer =
     [(''name'', ZString None [Min 4 (Some ''Please enter your full name.'')]),
      (''email'', ZString None [Email (Some ''Please enter a valid email address.'')]),
      (''image'', ZOptional (ZString None []))]"
  by (simp add: CreateCustomer_def CustomerFormSchema_def omit_def)

lemma CreateUser_shape:
  "CreateUser =
     [(''name'', ZString None []),
      (''email'', ZString None [Email None]),
      (''password'', ZString None [Min 8 None])]"
  by (simp add: CreateUser_def UserSchema_def omit_def)

lemma zparse_plain_string:
  "zparse em (ZString e []) v =
     (if is_string v then Inr v else Inl [invalid_type_message e ''string'' v])"
  by (cases v) (simp_all add: is_string_def)

lemma zparse_amount:
  "zparse em (ZCoerceNumber [Gt z m]) v =
     (if ToNumber v = NaN then Inl [''Expected number, received nan'']
      else if num_le (ToNumber v) z then Inl [m]
      else Inr (JNum (ToNumber v)))"
  by (simp add: Let_def number_check_def invalid_type_message_def parsed_type_def)

lemma zparse_amount_rule:
  "zparse em (ZCoerceNumber [Gt (num_of_nat 0) m]) v =
     (if rule_amount v then Inr (JNum (ToNumber v))
      else Inl [if ToNumber v = NaN then ''Expected number, received nan'' else m])"
  by (simp add: zparse_amount rule_amount_def del: zparse.simps)

lemma zparse_status_rule:
  "zparse em (ZEnum [''pending'', ''paid''] e) v =
     (if rule_status v then Inr v
      else Inl [case v of
                  JStr s \<Rightarrow> ''Invalid enum value. Expected '' @ join_values [''pending'', ''paid'']
                              @ '', received '' @ quote s
                | _ \<Rightarrow> invalid_type_message e (join_values [''pending'', ''paid'']) v])"
  by (cases v) (auto simp add: rule_status_def)

lemma zparse_name_rule:
  "zparse em (ZString None [Min 4 (Some m)]) v =
     (if rule_name v then Inr v
      else Inl [case v of JStr s \<Rightarrow> m | _ \<Rightarrow> invalid_type_message None ''string'' v])"
  by (cases v) (auto simp add: rule_name_def string_check_def)

lemma zparse_email_rule:
  "zparse em (ZString None [Email e]) v =
     (if rule_email em v then Inr v
      else Inl [case v of
                  JStr s \<Rightarrow> (case e of Some m \<Rightarrow> m | None \<Rightarrow> ''Invalid email'')
                | _ \<Rightarrow> invalid_type_message None ''string'' v])"
  by (cases v) (auto simp add: rule_email_def string_check_def)

lemma zparse_password_rule:
  "zparse em (ZString None [Min 8 None]) v =
     (if rule_password v then Inr v
      else Inl [case v of
                  JStr s \<Rightarrow> ''String must contain at least '' @ decimal 8 @ '' character(s)''
                | _ \<Rightarrow> invalid_type_message None ''string'' v])"
  by (cases v) (auto simp add: rule_password_def string_check_def)

lemma zparse_optional_string:
  "zparse em (ZOptional (ZString None [])) v =
     (if v = JUndefined \<or> is_string v then Inr v
      else Inl [invalid_type_message None ''string'' v])"
  by (cases v) (simp_all add: is_string_def)

lemma formData_get_not_undefined: "formData_get fd k \<noteq> JUndefined"
  by (simp add: formData_get_def split: option.splits FormDataEntryValue.splits)

lemma safeParse_CreateInvoice:
  "safeParse em CreateInvoice [(''customerId'', c), (''amount'', a), (''status'', s)] =
     (if is_string c \<and> rule_amount a \<and> rule_status s
      then SafeParseSuccess [(''customerId'', c), (''amount'', JNum (ToNumber a)), (''status'', s)]
      else SafeParseError
             ((if is_string c then []
               else [(''customerId'', invalid_type_message (Some ''Please select a customer.'') ''string'' c)])
              @ (if rule_amount a then []
                 else [(''amount'', if ToNumber a = NaN then ''Expected number, received nan''
                                    else ''Please enter an amount greater than $0.'')])
              @ (if rule_status s then []
                 else [(''status'',
                        case s of
                          JStr x \<Rightarrow> ''Invalid enum value. Expected '' @ join_values [''pending'', ''paid'']
                                      @ '', received '' @ quote x
                        | _ \<Rightarrow> invalid_type_message (Some ''Please select an invoice status.'')
                                 (join_values [''pending'', ''paid'']) s)])))"
  unfolding CreateInvoice_shape safeParse_def parse_keys_def
  by (simp add: get_prop_def zparse_plain_string zparse_amount_rule zparse_status_rule
        issues_of_def data_of_def Let_def del: zparse.simps)

lemma safeParse_CreateCustomer:
  "safeParse em CreateCustomer [(''name'', n), (''email'', e), (''image'', i)] =
     (if rule_name n \<and> rule_email em e \<and> (i = JUndefined \<or> is_string i)
      then SafeParseSuccess [(''name'', n), (''email'', e), (''image'', i)]
      else SafeParseError
             ((if rule_name n then []
               else [(''name'', case n of JStr s \<Rightarrow> ''Please enter your full name.''
                                | _ \<Rightarrow> invalid_type_message None ''string'' n)])
              @ (if rule_email em e then []
                 else [(''email'', case e of JStr s \<Rightarrow> ''Please enter a valid email address.''
                                   | _ \<Rightarrow> invalid_type_message None ''string'' e)])
              @ (if i = JUndefined \<or> is_string i then []
                 else [(''image'', invalid_type_message None ''string'' i)])))"
  unfolding CreateCustomer_shape safeParse_def parse_keys_def
  by (simp add: get_prop_def zparse_name_rule zparse_email_rule zparse_optional_string
        issues_of_def data_of_def Let_def del: zparse.simps cong: jsval.case_cong)

lemma safeParse_CustomerFormSchema:
  "safeParse em CustomerFormSchema [(''name'', n), (''email'', e), (''image'', i)] =
     SafeParseError
       ([(''id'', ''Required'')]
        @ (if rule_name n then []
           else [(''name'', case n of JStr s \<Rightarrow> ''Please enter your full name.''
                            | _ \<Rightarrow> invalid_type_message None ''string'' n)])
        @ (if rule_email em e then []
           else [(''email'', case e of JStr s \<Rightarrow> ''Please enter a valid email address.''
                             | _ \<Rightarrow> invalid_type_message None ''string'' e)])
        @ (if i = JUndefined \<or> is_string i then []
           else [(''image'', invalid_type_message None ''string'' i)]))"
  unfolding CustomerFormSchema_def safeParse_def parse_keys_def
  by (simp add: get_prop_def zparse_plain_string zparse_name_rule zparse_email_rule zparse_optional_string
        issues_of_def data_of_def Let_def is_string_def invalid_type_message_def del: zparse.simps
        cong: jsval.case_cong)

lemma safeParse_CreateUser:
  "safeParse em CreateUser [(''name'', n), (''email'', e), (''password'', p)] =
     (if is_string n \<and> rule_email em e \<and> rule_password p
      then SafeParseSuccess [(''name'', n), (''email'', e), (''password'', p)]
      else SafeParseError
             ((if is_string n then [] else [(''name'', invalid_type_message None ''string'' n)])
              @ (if rule_email em e then []
                 else [(''email'', case e of JStr s \<Rightarrow> ''Invalid email''
                                   | _ \<Rightarrow> invalid_type_message None ''string'' e)])
              @ (if rule_password p then []
                 else [(''password'',
                        case p of
                          JStr s \<Rightarrow> ''String must contain at least '' @ decimal 8 @ '' character(s)''
                        | _ \<Rightarrow> invalid_type_message None ''string'' p)])))"
  unfolding CreateUser_shape safeParse_def parse_keys_def
  by (simp add: get_prop_def zparse_plain_string zparse_email_rule zparse_password_rule
        issues_of_def data_of_def Let_def del: zparse.simps cong: jsval.case_cong)

lemma add_field_error_keys:
  "map fst (add_field_error fe km) =
     (if fst km \<in> fst ` set fe then map fst fe else map fst fe @ [fst km])"
proof -
  have "map fst (map (\<lambda>e. if fst e = k then (fst e, snd e @ [m]) else e) fe) = map fst fe" for k m
    by (induction fe) auto
  then show ?thesis by (simp add: add_field_error_def)
qed

lemma fieldErrors_keys_aux:
  "fst ` set (foldl add_field_error fe issues) = fst ` set fe \<union> fst ` set issues"
proof (induction issues arbitrary: fe)
  case Nil
  then show ?case by simp
next
  case (Cons km issues)
  have "set (map fst (add_field_error fe km)) = insert (fst km) (fst ` set fe)"
    unfolding add_field_error_keys by auto
  then have "fst ` set (add_field_error fe km) = insert (fst km) (fst ` set fe)"
    by simp
  with Cons show ?case by auto
qed

lemma fieldErrors_keys: "fst ` set (fieldErrors issues) = fst ` set issues"
  by (simp add: fieldErrors_def fieldErrors_keys_aux)

lemma fieldErrors_empty: "fieldErrors issues = [] \<longleftrightarrow> issues = []"
  using fieldErrors_keys [of issues] by (metis image_is_empty set_empty)

lemma validation_failed_reports:
  "issues \<noteq> [] \<Longrightarrow> reports_validation_failure msg (validation_failed msg issues)"
  by (simp add: reports_validation_failure_def validation_failed_def fieldErrors_empty)

lemma validation_failed_fields:
  "error_fields (validation_failed msg issues) = fst ` set issues"
  by (simp add: error_fields_def validation_failed_def fieldErrors_keys)

subsection \<open>Evaluating the model\<close>

text \<open>
  Rules to compute \<open>round_double\<close>, \<open>civil_of_days\<close> and \<open>pad\<close> step by step on numerals, and
  the values of the numbers, dates and addresses of the sample submissions.
\<close>

lemma round_double_steps:
  assumes n: "(n = 0) = False"
    and ea: "int (bit_length n) - int (bit_length d) - 53 = ea"
    and sa: "scale2 n d ea = (aa, ba)"
    and eb: "(if 2 ^ 53 * ba \<le> aa then ea + 1 else ea) = eb"
    and e: "max eb (- 1074) = e"
    and s: "scale2 n d e = (a, b)"
    and q: "a div b = q" and r: "a mod b = r"
    and m: "(if 2 * r < b then q else if b < 2 * r then q + 1 else if even q then q else q + 1) = m"
    and fin: "(m = 2 ^ 53) = False" "(971 < e) = False"
  shows "round_double neg n d = Finite neg m e"
  by (simp only: round_double_def round_half_even_def Let_def n ea sa eb e s q r m fin
        fst_conv snd_conv if_False)

lemma bit_length_numeral:
  "bit_length (numeral (Num.Bit0 k)) = bit_length (numeral k) + 1"
  "bit_length (numeral (Num.Bit1 k)) = bit_length (numeral k) + 1"
  "bit_length (numeral Num.One) = 1"
proof -
  have a: "(numeral (Num.Bit0 k) :: nat) div 2 = numeral k" by simp
  have b: "(numeral (Num.Bit1 k) :: nat) div 2 = numeral k" by simp
  show "bit_length (numeral (Num.Bit0 k)) = bit_length (numeral k) + 1"
    by (subst bit_length.simps) (simp only: a, simp)
  show "bit_length (numeral (Num.Bit1 k)) = bit_length (numeral k) + 1"
    by (subst bit_length.simps) (simp only: b, simp)
  show "bit_length (numeral Num.One) = 1" by (simp add: bit_length.simps)
qed

lemma bit_length_1: "bit_length 1 = 1" "bit_length (Suc 0) = 1"
  by (simp_all add: bit_length.simps)

lemmas round_eval = scale2_def bit_length_numeral bit_length_1

lemma round_100: "round_double False 100 (Suc 0) = Finite False 7036874417766400 (- 46)"
  by (rule round_double_steps
        [where ea = "- 47" and aa = "14073748835532800" and ba = "1"
          and eb = "- 46" and e = "- 46" and a = "7036874417766400"
          and b = "1" and q = "7036874417766400" and r = "0"])
     (simp_all add: round_eval)

lemma round_1250_100: "round_double False 1250 100 = Finite False 7036874417766400 (- 49)"
  by (rule round_double_steps
        [where ea = "- 49" and aa = "703687441776640000" and ba = "100"
          and eb = "- 49" and e = "- 49" and a = "703687441776640000"
          and b = "100" and q = "7036874417766400" and r = "0"])
     (simp_all add: round_eval)

lemma round_7_100: "round_double False 7 100 = Finite False 5044031582654956 (- 56)"
  by (rule round_double_steps
        [where ea = "- 57" and aa = "1008806316530991104" and ba = "100"
          and eb = "- 56" and e = "- 56" and a = "504403158265495552"
          and b = "100" and q = "5044031582654955" and r = "52"])
     (simp_all add: round_eval)

lemma round_product_12_50: "round_double False 49517601571415210995964968960000 39614081257132168796771975168 = Finite False 5497558138880000 (- 42)"
  by (rule round_double_steps
        [where ea = "- 43" and aa = "435561429658801233233119497512663310663680000" and ba = "39614081257132168796771975168"
          and eb = "- 42" and e = "- 42" and a = "217780714829400616616559748756331655331840000"
          and b = "39614081257132168796771975168" and q = "5497558138880000" and r = "0"])
     (simp_all add: round_eval)

lemma round_product_0_07: "round_double False 35494216806390426619607410278400 5070602400912917605986812821504 = Finite False 7881299347898369 (- 50)"
  by (rule round_double_steps
        [where ea = "- 51" and aa = "79925870791533760945167615658548136617653043200" and ba = "5070602400912917605986812821504"
          and eb = "- 50" and e = "- 50" and a = "39962935395766880472583807829274068308826521600"
          and b = "5070602400912917605986812821504" and q = "7881299347898368" and r = "3802951800684688204490109616128"])
     (simp_all add: round_eval)

lemma num_of_nat_0: "num_of_nat 0 = Finite False 0 (- 1074)"
  by (simp add: num_of_nat_def round_double_def)

lemma num_of_nat_100: "num_of_nat 100 = Finite False 7036874417766400 (- 46)"
  by (simp add: num_of_nat_def round_100)

lemmas StringToNumber_eval = StringToNumber_def trim_def is_white_def strip_sign_def
  parse_unsigned_decimal_def is_digit_def digits_value_def radix_digit_def parse_exponent_def Let_def

lemma StringToNumber_12_50: "StringToNumber ''12.50'' = Finite False 7036874417766400 (- 49)"
  by (simp add: StringToNumber_eval round_1250_100)

lemma StringToNumber_0_07: "StringToNumber ''0.07'' = Finite False 5044031582654956 (- 56)"
  by (simp add: StringToNumber_eval round_7_100)

lemma StringToNumber_0: "StringToNumber ''0'' = Finite False 0 (- 1074)"
  by (simp add: StringToNumber_eval round_double_def)

lemma times_100_12_50:
  "num_times (Finite False 7036874417766400 (- 49)) (num_of_nat 100) = Finite False 5497558138880000 (- 42)"
  by (simp add: num_times_def num_of_nat_100 round_product_12_50)

lemma times_100_0_07:
  "num_times (Finite False 5044031582654956 (- 56)) (num_of_nat 100) = Finite False 7881299347898369 (- 50)"
  by (simp add: num_times_def num_of_nat_100 round_product_0_07)

lemma rule_amount_12_50: "rule_amount (JStr ''12.50'')"
  by (simp add: rule_amount_def ToNumber_def StringToNumber_12_50 num_of_nat_0 num_le_def signed_def)

lemma rule_amount_0_07: "rule_amount (JStr ''0.07'')"
  by (simp add: rule_amount_def ToNumber_def StringToNumber_0_07 num_of_nat_0 num_le_def signed_def)

lemma rule_amount_0: "\<not> rule_amount (JStr ''0'')" "ToNumber (JStr ''0'') \<noteq> NaN"
  by (simp_all add: rule_amount_def ToNumber_def StringToNumber_0 num_of_nat_0 num_le_def signed_def)

lemma pad_numeral: "pad (numeral k) n = pad (pred_numeral k) (n div 10) @ [digit_char n]"
proof -
  have "pad (numeral k) n = pad (Suc (pred_numeral k)) n" by (simp only: numeral_eq_Suc)
  then show ?thesis by (simp only: pad.simps)
qed

lemma civil_of_days_steps:
  assumes z: "days + 719468 = z"
    and era: "z div 146097 = era"
    and doe: "z mod 146097 = doe"
    and yoe: "(doe - doe div 1460 + doe div 36524 - doe div 146096) div 365 = yoe"
    and doy: "doe - (365 * yoe + yoe div 4 - yoe div 100) = doy"
    and mp: "(5 * doy + 2) div 153 = mp"
    and d: "doy - (153 * mp + 2) div 5 + 1 = d"
    and m: "(if mp < 10 then mp + 3 else mp - 9) = m"
    and y: "yoe + era * 400 = y"
    and yy: "(if m \<le> 2 then y + 1 else y) = yy"
  shows "civil_of_days days = (yy, m, d)"
  by (simp only: civil_of_days_def Let_def z era doe yoe doy mp d m y yy)

lemma civil_of_sample_day: "civil_of_days 19675 = (2023, 11, 14)"
  by (rule civil_of_days_steps [where z = 739143 and era = 5 and doe = 8658 and yoe = 23
        and doy = 258 and mp = 8 and y = 2023]) simp_all

lemma iso_date_sample: "iso_date 1700000000000 = ''2023-11-14''"
  by (simp add: iso_date_def civil_of_sample_day iso_year_def pad_numeral digit_char_def)

lemma zod_email_jane: "zod_email ''jane@x.com''"
  by (simp add: zod_email_def local_char_def local_last_char_def is_alnum_def is_letter_def
        is_digit_def domain_label_def top_label_def)

subsection \<open>The runs of the handlers\<close>

text \<open>
  The date \<^verbatim>\<open>createInvoice\<close> takes from the clock, what the statements after the validation
  do on the parsed data, and what each handler does when its submission passes the
  validation and when it does not.
\<close>

lemma digit_char_is_digit: "digit_char n \<in> set ''0123456789''"
  unfolding digit_char_def by (rule nth_mem) simp

lemma pad_digits: "set (pad w n) \<subseteq> set ''0123456789''"
proof (induction w arbitrary: n)
  case 0
  then show ?case by simp
next
  case (Suc w)
  have "set (pad (Suc w) n) = set (pad w (n div 10)) \<union> {digit_char n}" by simp
  with Suc [of "n div 10"] digit_char_is_digit [of n] show ?case by blast
qed

lemma pad_no_T: "CHR ''T'' \<notin> set (pad w n)"
  using pad_digits [of w n] by auto

lemma iso_date_no_T: "CHR ''T'' \<notin> set (iso_date t)"
  by (simp add: iso_date_def iso_year_def pad_no_T split: prod.splits)

lemma split_first_toISOString: "split_first CHR ''T'' (toISOString t) = iso_date t"
proof -
  have "takeWhile (\<lambda>c. c \<noteq> CHR ''T'') (iso_date t @ CHR ''T'' # iso_time t @ ''Z'') = iso_date t"
    using iso_date_no_T [of t] by (auto simp add: takeWhile_tail)
  then show ?thesis by (simp add: split_first_def toISOString_def)
qed

lemma createInvoice_validated_eq:
  "createInvoice_validated E [(''customerId'', c), (''amount'', JNum x), (''status'', s)] =
     (case sql E \<lparr>sql_text = ''INSERT INTO invoices (customer_id, amount, status, date) VALUES ($1, $2, $3, $4)'',
                  sql_params = [c, JNum (num_times x (num_of_nat 100)), s, JStr (iso_date (now E))]\<rparr> of
        Some error \<Rightarrow>
          \<lparr>outcome = Returned \<lparr>errors = None, message = Some ''Database Error: Failed to Create Invoice.''\<rparr>,
           effects = [Sql \<lparr>sql_text = ''INSERT INTO invoices (customer_id, amount, status, date) VALUES ($1, $2, $3, $4)'',
                           sql_params = [c, JNum (num_times x (num_of_nat 100)), s, JStr (iso_date (now E))]\<rparr>],
           detached = []\<rparr>
      | None \<Rightarrow>
          \<lparr>outcome = Redirected ''/dashboard/invoices'',
           effects = [Sql \<lparr>sql_text = ''INSERT INTO invoices (customer_id, amount, status, date) VALUES ($1, $2, $3, $4)'',
                           sql_params = [c, JNum (num_times x (num_of_nat 100)), s, JStr (iso_date (now E))]\<rparr>,
                      RevalidatePath ''/dashboard/invoices''],
           detached = []\<rparr>)"
  by (simp add: createInvoice_validated_def get_prop_def js_times_def ToNumber_def
        split_first_toISOString Let_def cong: option.case_cong)

lemma updateInvoice_validated_eq:
  "updateInvoice_validated E id' [(''customerId'', c), (''amount'', JNum x), (''status'', s)] =
     (case sql E \<lparr>sql_text = ''UPDATE invoices SET customer_id = $1, amount = $2, status = $3 WHERE id = $4'',
                  sql_params = [c, JNum (num_times x (num_of_nat 100)), s, JStr id']\<rparr> of
        Some error \<Rightarrow>
          \<lparr>outcome = Returned \<lparr>errors = None, message = Some ''Database Error: Failed to Update Invoice.''\<rparr>,
           effects = [Sql \<lparr>sql_text = ''UPDATE invoices SET customer_id = $1, amount = $2, status = $3 WHERE id = $4'',
                           sql_params = [c, JNum (num_times x (num_of_nat 100)), s, JStr id']\<rparr>],
           detached = []\<rparr>
      | None \<Rightarrow>
          \<lparr>outcome = Redirected ''/dashboard/invoices'',
           effects = [Sql \<lparr>sql_text = ''UPDATE invoices SET customer_id = $1, amount = $2, status = $3 WHERE id = $4'',
                           sql_params = [c, JNum (num_times x (num_of_nat 100)), s, JStr id']\<rparr>,
                      RevalidatePath ''/dashboard/invoices''],
           detached = []\<rparr>)"
  by (simp add: updateInvoice_validated_def get_prop_def js_times_def ToNumber_def Let_def
        cong: option.case_cong)

lemma createInvoice_valid:
  assumes "is_string (formData_get fd ''customerId'')"
    and "rule_amount (formData_get fd ''amount'')"
    and "rule_status (formData_get fd ''status'')"
  shows "createInvoice E ps fd =
           createInvoice_validated E
             [(''customerId'', formData_get fd ''customerId''),
              (''amount'', JNum (ToNumber (formData_get fd ''amount''))),
              (''status'', formData_get fd ''status'')]"
  using assms by (simp add: createInvoice_def safeParse_CreateInvoice)

lemma updateInvoice_valid:
  assumes "is_string (formData_get fd ''customerId'')"
    and "rule_amount (formData_get fd ''amount'')"
    and "rule_status (formData_get fd ''status'')"
  shows "updateInvoice E id' ps fd =
           updateInvoice_validated E id'
             [(''customerId'', formData_get fd ''customerId''),
              (''amount'', JNum (ToNumber (formData_get fd ''amount''))),
              (''status'', formData_get fd ''status'')]"
  using assms by (simp add: updateInvoice_def UpdateInvoice_shape safeParse_CreateInvoice)

lemma createInvoice_invalid:
  assumes "\<not> (is_string (formData_get fd ''customerId'') \<and> rule_amount (formData_get fd ''amount'')
              \<and> rule_status (formData_get fd ''status''))"
  shows "reports_validation_failure ''Missing Fields. Failed to Create Invoice.'' (createInvoice E ps fd)"
    and "error_fields (createInvoice E ps fd) =
           (if is_string (formData_get fd ''customerId'') then {} else {''customerId''})
           \<union> (if rule_amount (formData_get fd ''amount'') then {} else {''amount''})
           \<union> (if rule_status (formData_get fd ''status'') then {} else {''status''})"
  using assms
  by (auto simp add: createInvoice_def safeParse_CreateInvoice validation_failed_reports
        validation_failed_fields)

lemma updateInvoice_invalid:
  assumes "\<not> (is_string (formData_get fd ''customerId'') \<and> rule_amount (formData_get fd ''amount'')
              \<and> rule_status (formData_get fd ''status''))"
  shows "reports_validation_failure ''Missing Fields. Failed to Update Invoice.'' (updateInvoice E id' ps fd)"
    and "error_fields (updateInvoice E id' ps fd) =
           (if is_string (formData_get fd ''customerId'') then {} else {''customerId''})
           \<union> (if rule_amount (formData_get fd ''amount'') then {} else {''amount''})
           \<union> (if rule_status (formData_get fd ''status'') then {} else {''status''})"
  using assms
  by (auto simp add: updateInvoice_def UpdateInvoice_shape safeParse_CreateInvoice
        validation_failed_reports validation_failed_fields)


lemma createCustomer_validated_eq:
  "createCustomer_validated E [(''name'', n), (''email'', e), (''image'', i)] =
     (case sql E \<lparr>sql_text = ''INSERT INTO customers (name, email, image_url) VALUES ($1, $2, $3 )'',
                  sql_params = [n, e, i]\<rparr> of
        Some error \<Rightarrow>
          \<lparr>outcome = Returned \<lparr>errors = None, message = Some ''Database Error: Failed to Create Customer.''\<rparr>,
           effects = [Sql \<lparr>sql_text = ''INSERT INTO customers (name, email, image_url) VALUES ($1, $2, $3 )'',
                           sql_params = [n, e, i]\<rparr>],
           detached = []\<rparr>
      | None \<Rightarrow>
          \<lparr>outcome = Redirected ''/dashboard/customers'',
           effects = [Sql \<lparr>sql_text = ''INSERT INTO customers (name, email, image_url) VALUES ($1, $2, $3 )'',
                           sql_params = [n, e, i]\<rparr>,
                      RevalidatePath ''/dashboard/customers''],
           detached = []\<rparr>)"
  by (simp add: createCustomer_validated_def get_prop_def Let_def cong: option.case_cong)

lemma createUser_validated_eq:
  "createUser_validated E fd [(''name'', n), (''email'', e), (''password'', p)] =
     (case sql E \<lparr>sql_text = ''INSERT INTO users (email, password, name) VALUES ($1, $2, $3 )'',
                  sql_params = [e, bcrypt_hash E p 10, n]\<rparr> of
        Some error \<Rightarrow>
          \<lparr>outcome = Returned \<lparr>errors = None, message = Some ''Database Error: Failed to Create User.''\<rparr>,
           effects = [ConsoleLog [e, bcrypt_hash E p 10],
                      Sql \<lparr>sql_text = ''INSERT INTO users (email, password, name) VALUES ($1, $2, $3 )'',
                           sql_params = [e, bcrypt_hash E p 10, n]\<rparr>],
           detached = []\<rparr>
      | None \<Rightarrow>
          \<lparr>outcome = Redirected ''/dashboard'',
           effects = [ConsoleLog [e, bcrypt_hash E p 10],
                      Sql \<lparr>sql_text = ''INSERT INTO users (email, password, name) VALUES ($1, $2, $3 )'',
                           sql_params = [e, bcrypt_hash E p 10, n]\<rparr>,
                      SignIn ''credentials'' fd,
                      RevalidatePath ''/dashboard''],
           detached = [outcome (authenticate E None fd)]\<rparr>)"
  by (simp add: createUser_validated_def get_prop_def Let_def authenticate_def cong: option.case_cong)

lemma createCustomer_valid:
  assumes "rule_name (formData_get fd ''name'')"
    and "rule_email (email_re E) (formData_get fd ''email'')"
    and "is_string (formData_get fd ''image'')"
  shows "createCustomer E ps fd =
           createCustomer_validated E
             [(''name'', formData_get fd ''name''),
              (''email'', formData_get fd ''email''),
              (''image'', formData_get fd ''image'')]"
  using assms by (simp add: createCustomer_def safeParse_CreateCustomer)

lemma createCustomer_invalid:
  assumes "\<not> (rule_name (formData_get fd ''name'') \<and> rule_email (email_re E) (formData_get fd ''email'')
              \<and> is_string (formData_get fd ''image''))"
  shows "reports_validation_failure ''Missing Fields. Failed to Create Customer.'' (createCustomer E ps fd)"
    and "error_fields (createCustomer E ps fd) =
           (if rule_name (formData_get fd ''name'') then {} else {''name''})
           \<union> (if rule_email (email_re E) (formData_get fd ''email'') then {} else {''email''})
           \<union> (if is_string (formData_get fd ''image'') then {} else {''image''})"
  using assms
  by (auto simp add: createCustomer_def safeParse_CreateCustomer validation_failed_reports
        validation_failed_fields formData_get_not_undefined)

lemma updateCustomer_invalid:
  shows "reports_validation_failure ''Missing Fields. Failed to Update Customer.'' (updateCustomer E id' ps fd)"
    and "error_fields (updateCustomer E id' ps fd) =
           {''id''}
           \<union> (if rule_name (formData_get fd ''name'') then {} else {''name''})
           \<union> (if rule_email (email_re E) (formData_get fd ''email'') then {} else {''email''})
           \<union> (if is_string (formData_get fd ''image'') then {} else {''image''})"
  by (auto simp add: updateCustomer_def safeParse_CustomerFormSchema validation_failed_reports
        validation_failed_fields formData_get_not_undefined)

lemma createUser_valid:
  assumes "is_string (formData_get fd ''name'')"
    and "rule_email (email_re E) (formData_get fd ''email'')"
    and "rule_password (formData_get fd ''password'')"
  shows "createUser E ps fd =
           createUser_validated E fd
             [(''name'', formData_get fd ''name''),
              (''email'', formData_get fd ''email''),
              (''password'', formData_get fd ''password'')]"
  using assms by (simp add: createUser_def safeParse_CreateUser)

lemma createUser_invalid:
  assumes "\<not> (is_string (formData_get fd ''name'') \<and> rule_email (email_re E) (formData_get fd ''email'')
              \<and> rule_password (formData_get fd ''password''))"
  shows "reports_validation_failure ''Missing Fields. Failed to Create User.'' (createUser E ps fd)"
    and "error_fields (createUser E ps fd) =
           (if is_string (formData_get fd ''name'') then {} else {''name''})
           \<union> (if rule_email (email_re E) (formData_get fd ''email'') then {} else {''email''})
           \<union> (if rule_password (formData_get fd ''password'') then {} else {''password''})"
  using assms
  by (auto simp add: createUser_def safeParse_CreateUser validation_failed_reports
        validation_failed_fields)

lemma reports_validation_failure_effects:
  "reports_validation_failure msg r \<Longrightarrow> effects r = [] \<and> detached r = []"
  by (auto simp add: reports_validation_failure_def split: completion.splits)

subsection \<open>The sample runs\<close>

text \<open>The fields of the sample submissions and what the handlers do on them.\<close>

lemma round_1250: "round_double False 1250 (Suc 0) = Finite False 5497558138880000 (- 42)"
  by (rule round_double_steps
        [where ea = "- 43" and aa = "10995116277760000" and ba = "1"
          and eb = "- 42" and e = "- 42" and a = "5497558138880000"
          and b = "1" and q = "5497558138880000" and r = "0"])
     (simp_all add: round_eval)

lemma num_of_nat_1250: "num_of_nat 1250 = Finite False 5497558138880000 (- 42)"
  by (simp add: num_of_nat_def round_1250)

lemma sample_env_fields:
  "email_re sample_env = zod_email" "sql sample_env q = None" "now sample_env = 1700000000000"
  "bcrypt_hash sample_env v c = JStr ''$2b$10$abcdefghijklmnopqrstuu''"
  "signIn sample_env p fd = Some (AuthError ''CredentialsSignin'')"
  by (simp_all add: sample_env_def)

lemma failing_db_fields:
  "email_re failing_db = zod_email" "sql failing_db q = Some (OtherError ''connection refused'')"
  "now failing_db = 1700000000000"
  "bcrypt_hash failing_db v c = JStr ''$2b$10$abcdefghijklmnopqrstuu''"
  "signIn failing_db p fd = Some (AuthError ''CredentialsSignin'')"
  by (simp_all add: failing_db_def sample_env_def)

lemma invoice_form_fields:
  "formData_get invoice_form ''customerId'' = JStr ''c1''"
  "formData_get invoice_form ''amount'' = JStr ''12.50''"
  "formData_get invoice_form ''status'' = JStr ''pending''"
  by (simp_all add: invoice_form_def formData_get_def)

lemma dated_form_fields:
  "formData_get dated_form ''customerId'' = JStr ''c1''"
  "formData_get dated_form ''amount'' = JStr ''12.50''"
  "formData_get dated_form ''status'' = JStr ''pending''"
  "formData_get dated_form ''date'' = JStr ''1999-12-31''"
  by (simp_all add: dated_form_def invoice_form_def formData_get_def)

lemma zero_amount_form_fields:
  "formData_get zero_amount_form ''customerId'' = JStr ''c1''"
  "formData_get zero_amount_form ''amount'' = JStr ''0''"
  "formData_get zero_amount_form ''status'' = JStr ''pending''"
  by (simp_all add: zero_amount_form_def formData_get_def)

lemma no_customer_form_fields:
  "formData_get no_customer_form ''customerId'' = JStr []"
  "formData_get no_customer_form ''amount'' = JStr ''12.50''"
  "formData_get no_customer_form ''status'' = JStr ''pending''"
  by (simp_all add: no_customer_form_def formData_get_def)

lemma cents_form_fields:
  "formData_get cents_form ''customerId'' = JStr ''c1''"
  "formData_get cents_form ''amount'' = JStr ''0.07''"
  "formData_get cents_form ''status'' = JStr ''paid''"
  by (simp_all add: cents_form_def formData_get_def)

lemma jane_form_fields:
  "formData_get jane_form ''name'' = JStr ''Jane Doe''"
  "formData_get jane_form ''email'' = JStr ''jane@x.com''"
  "formData_get jane_form ''image'' = JNull"
  by (simp_all add: jane_form_def formData_get_def)

lemma jane_form_with_image_fields:
  "formData_get jane_form_with_image ''name'' = JStr ''Jane Doe''"
  "formData_get jane_form_with_image ''email'' = JStr ''jane@x.com''"
  "formData_get jane_form_with_image ''image'' = JStr ''/customers/jane.png''"
  by (simp_all add: jane_form_with_image_def jane_form_def formData_get_def)

lemma short_name_form_fields:
  "formData_get short_name_form ''name'' = JStr ''Jan''"
  "formData_get short_name_form ''email'' = JStr ''jane@x.com''"
  "formData_get short_name_form ''image'' = JStr ''/customers/jane.png''"
  by (simp_all add: short_name_form_def formData_get_def)

lemma user_form_fields:
  "formData_get user_form ''name'' = JStr ''Jane Doe''"
  "formData_get user_form ''email'' = JStr ''jane@x.com''"
  "formData_get user_form ''password'' = JStr ''correct horse''"
  by (simp_all add: user_form_def formData_get_def)

lemma short_password_form_fields:
  "formData_get short_password_form ''name'' = JStr ''Jane Doe''"
  "formData_get short_password_form ''email'' = JStr ''jane@x.com''"
  "formData_get short_password_form ''password'' = JStr ''horse''"
  by (simp_all add: short_password_form_def formData_get_def)

lemma sample_rules:
  "is_string (JStr s)" "\<not> is_string JNull"
  "rule_status (JStr ''pending'')" "rule_status (JStr ''paid'')"
  "rule_name (JStr ''Jane Doe'')" "\<not> rule_name (JStr ''Jan'')"
  "rule_email zod_email (JStr ''jane@x.com'')"
  "rule_password (JStr ''correct horse'')" "\<not> rule_password (JStr ''horse'')"
  "\<not> rule_customerId (JStr [])"
  by (simp_all add: is_string_def rule_status_def rule_name_def rule_email_def zod_email_jane
        rule_password_def rule_customerId_def)

lemmas sample_eval = sample_env_fields failing_db_fields sample_rules rule_amount_12_50
  rule_amount_0_07 rule_amount_0 ToNumber_def StringToNumber_12_50 StringToNumber_0_07
  StringToNumber_0 times_100_12_50 times_100_0_07 iso_date_sample

lemma createInvoice_sample:
  "createInvoice sample_env ps invoice_form =
     \<lparr>outcome = Redirected ''/dashboard/invoices'',
      effects =
        [Sql \<lparr>sql_text = ''INSERT INTO invoices (customer_id, amount, status, date) VALUES ($1, $2, $3, $4)'',
              sql_params = [JStr ''c1'', JNum (Finite False 5497558138880000 (- 42)), JStr ''pending'',
                            JStr ''2023-11-14'']\<rparr>,
         RevalidatePath ''/dashboard/invoices''],
      detached = []\<rparr>"
  by (simp add: createInvoice_valid createInvoice_validated_eq invoice_form_fields sample_eval)

lemma createInvoice_dated:
  "createInvoice sample_env ps dated_form =
     \<lparr>outcome = Redirected ''/dashboard/invoices'',
      effects =
        [Sql \<lparr>sql_text = ''INSERT INTO invoices (customer_id, amount, status, date) VALUES ($1, $2, $3, $4)'',
              sql_params = [JStr ''c1'', JNum (Finite False 5497558138880000 (- 42)), JStr ''pending'',
                            JStr ''2023-11-14'']\<rparr>,
         RevalidatePath ''/dashboard/invoices''],
      detached = []\<rparr>"
  by (simp add: createInvoice_valid createInvoice_validated_eq dated_form_fields sample_eval)

lemma createInvoice_no_customer:
  "createInvoice sample_env ps no_customer_form =
     \<lparr>outcome = Redirected ''/dashboard/invoices'',
      effects =
        [Sql \<lparr>sql_text = ''INSERT INTO invoices (customer_id, amount, status, date) VALUES ($1, $2, $3, $4)'',
              sql_params = [JStr [], JNum (Finite False 5497558138880000 (- 42)), JStr ''pending'',
                            JStr ''2023-11-14'']\<rparr>,
         RevalidatePath ''/dashboard/invoices''],
      detached = []\<rparr>"
  by (simp add: createInvoice_valid createInvoice_validated_eq no_customer_form_fields sample_eval)

lemma createInvoice_cents:
  "createInvoice sample_env ps cents_form =
     \<lparr>outcome = Redirected ''/dashboard/invoices'',
      effects =
        [Sql \<lparr>sql_text = ''INSERT INTO invoices (customer_id, amount, status, date) VALUES ($1, $2, $3, $4)'',
              sql_params = [JStr ''c1'', JNum (Finite False 7881299347898369 (- 50)), JStr ''paid'',
                            JStr ''2023-11-14'']\<rparr>,
         RevalidatePath ''/dashboard/invoices''],
      detached = []\<rparr>"
  by (simp add: createInvoice_valid createInvoice_validated_eq cents_form_fields sample_eval)

lemma createInvoice_failing:
  "createInvoice failing_db ps invoice_form =
     \<lparr>outcome = Returned \<lparr>errors = None, message = Some ''Database Error: Failed to Create Invoice.''\<rparr>,
      effects =
        [Sql \<lparr>sql_text = ''INSERT INTO invoices (customer_id, amount, status, date) VALUES ($1, $2, $3, $4)'',
              sql_params = [JStr ''c1'', JNum (Finite False 5497558138880000 (- 42)), JStr ''pending'',
                            JStr ''2023-11-14'']\<rparr>],
      detached = []\<rparr>"
  by (simp add: createInvoice_valid createInvoice_validated_eq invoice_form_fields sample_eval)

lemma updateInvoice_sample:
  "updateInvoice sample_env ''i1'' ps invoice_form =
     \<lparr>outcome = Redirected ''/dashboard/invoices'',
      effects =
        [Sql \<lparr>sql_text = ''UPDATE invoices SET customer_id = $1, amount = $2, status = $3 WHERE id = $4'',
              sql_params = [JStr ''c1'', JNum (Finite False 5497558138880000 (- 42)), JStr ''pending'',
                            JStr ''i1'']\<rparr>,
         RevalidatePath ''/dashboard/invoices''],
      detached = []\<rparr>"
  by (simp add: updateInvoice_valid updateInvoice_validated_eq invoice_form_fields sample_eval)

lemma updateInvoice_failing:
  "updateInvoice failing_db ''i1'' ps invoice_form =
     \<lparr>outcome = Returned \<lparr>errors = None, message = Some ''Database Error: Failed to Update Invoice.''\<rparr>,
      effects =
        [Sql \<lparr>sql_text = ''UPDATE invoices SET customer_id = $1, amount = $2, status = $3 WHERE id = $4'',
              sql_params = [JStr ''c1'', JNum (Finite False 5497558138880000 (- 42)), JStr ''pending'',
                            JStr ''i1'']\<rparr>],
      detached = []\<rparr>"
  by (simp add: updateInvoice_valid updateInvoice_validated_eq invoice_form_fields sample_eval)

lemma createCustomer_failing:
  "createCustomer failing_db ps jane_form_with_image =
     \<lparr>outcome = Returned \<lparr>errors = None, message = Some ''Database Error: Failed to Create Customer.''\<rparr>,
      effects =
        [Sql \<lparr>sql_text = ''INSERT INTO customers (name, email, image_url) VALUES ($1, $2, $3 )'',
              sql_params = [JStr ''Jane Doe'', JStr ''jane@x.com'', JStr ''/customers/jane.png'']\<rparr>],
      detached = []\<rparr>"
  by (simp add: createCustomer_valid createCustomer_validated_eq jane_form_with_image_fields sample_eval)

lemma createUser_sample:
  "createUser sample_env ps user_form =
     \<lparr>outcome = Redirected ''/dashboard'',
      effects =
        [ConsoleLog [JStr ''jane@x.com'', JStr ''$2b$10$abcdefghijklmnopqrstuu''],
         Sql \<lparr>sql_text = ''INSERT INTO users (email, password, name) VALUES ($1, $2, $3 )'',
              sql_params = [JStr ''jane@x.com'', JStr ''$2b$10$abcdefghijklmnopqrstuu'', JStr ''Jane Doe'']\<rparr>,
         SignIn ''credentials'' user_form,
         RevalidatePath ''/dashboard''],
      detached = [Returned (Some ''Invalid credentials.'')]\<rparr>"
  by (simp add: createUser_valid createUser_validated_eq user_form_fields sample_eval authenticate_def)

lemma createUser_failing:
  "createUser failing_db ps user_form =
     \<lparr>outcome = Returned \<lparr>errors = None, message = Some ''Database Error: Failed to Create User.''\<rparr>,
      effects =
        [ConsoleLog [JStr ''jane@x.com'', JStr ''$2b$10$abcdefghijklmnopqrstuu''],
         Sql \<lparr>sql_text = ''INSERT INTO users (email, password, name) VALUES ($1, $2, $3 )'',
              sql_params = [JStr ''jane@x.com'', JStr ''$2b$10$abcdefghijklmnopqrstuu'', JStr ''Jane Doe'']\<rparr>],
      detached = []\<rparr>"
  by (simp add: createUser_valid createUser_validated_eq user_form_fields sample_eval)

section \<open>The claims\<close>

subsection \<open>The schema of \<^verbatim>\<open>updateCustomer\<close>\<close>

text \<open>
  Claim C1 says that no handler validates against a schema with the field \<^verbatim>\<open>id\<close>, so that
  \<^verbatim>\<open>updateCustomer\<close> rejects no submission for the lack of one. \<^verbatim>\<open>updateInvoice\<close> and the
  three handlers that create parse with schemas that omit the field; \<^verbatim>\<open>updateCustomer\<close>
  parses with \<^verbatim>\<open>CustomerFormSchema\<close> itself. What the code does: \<^verbatim>\<open>id\<close> is a key of the
  schema \<^verbatim>\<open>updateCustomer\<close> parses with; every run of \<^verbatim>\<open>updateCustomer\<close> reports an error
  for the field \<^verbatim>\<open>id\<close> and has no effect, so no customer is ever updated; on the sample
  submission, whose name, e-mail address and image are all valid, it returns the errors
  \<^verbatim>\<open>{id: ['Required']}\<close> with the message \<^verbatim>\<open>Missing Fields. Failed to Update Customer.\<close>
\<close>

theorem updateCustomer_parses_with_the_full_schema:
  "''id'' \<in> fst ` set CustomerFormSchema
   \<and> ''id'' \<in> error_fields (updateCustomer E id' prevState formData)
   \<and> effects (updateCustomer E id' prevState formData) = []
   \<and> updateCustomer sample_env ''c1'' no_state jane_form_with_image =
       \<lparr>outcome = Returned \<lparr>errors = Some [(''id'', [''Required''])],
                            message = Some ''Missing Fields. Failed to Update Customer.''\<rparr>,
        effects = [], detached = []\<rparr>"
proof (intro conjI)
  show "''id'' \<in> fst ` set CustomerFormSchema"
    by (simp add: CustomerFormSchema_def)
  show "''id'' \<in> error_fields (updateCustomer E id' prevState formData)"
    by (simp add: updateCustomer_invalid)
  show "effects (updateCustomer E id' prevState formData) = []"
    by (simp add: updateCustomer_def safeParse_CustomerFormSchema validation_failed_def)
  show "updateCustomer sample_env ''c1'' no_state jane_form_with_image =
       \<lparr>outcome = Returned \<lparr>errors = Some [(''id'', [''Required''])],
                            message = Some ''Missing Fields. Failed to Update Customer.''\<rparr>,
        effects = [], detached = []\<rparr>"
    by (simp add: updateCustomer_def safeParse_CustomerFormSchema validation_failed_def
          jane_form_with_image_fields sample_eval fieldErrors_def add_field_error_def)
qed

subsection \<open>A customer without an image\<close>

text \<open>
  Claim C2 says that the submission with the name \<^verbatim>\<open>Jane Doe\<close>, the address \<^verbatim>\<open>jane@x.com\<close>
  and no \<^verbatim>\<open>image\<close> passes the validation of \<^verbatim>\<open>createCustomer\<close> and is inserted. What the
  code does: \<^verbatim>\<open>formData.get('image')\<close> is \<^verbatim>\<open>null\<close>, which \<^verbatim>\<open>z.string().optional()\<close> does
  not accept, so \<^verbatim>\<open>createCustomer\<close> returns the errors
  \<^verbatim>\<open>{image: ['Expected string, received null']}\<close> with the message
  \<^verbatim>\<open>Missing Fields. Failed to Create Customer.\<close>, and issues no statement, invalidates no
  path and does not redirect.
\<close>

theorem createCustomer_rejects_an_absent_image:
  "createCustomer sample_env no_state jane_form =
     \<lparr>outcome = Returned \<lparr>errors = Some [(''image'', [''Expected string, received null''])],
                          message = Some ''Missing Fields. Failed to Create Customer.''\<rparr>,
      effects = [], detached = []\<rparr>"
  by (simp add: createCustomer_def safeParse_CreateCustomer validation_failed_def
        jane_form_fields sample_eval fieldErrors_def add_field_error_def
        invalid_type_message_def parsed_type_def)

text \<open>The same for every submission without an \<^verbatim>\<open>image\<close>, in every environment.\<close>

lemma createCustomer_needs_an_image_string:
  assumes "formData_get formData ''image'' = JNull"
  shows "''image'' \<in> error_fields (createCustomer E prevState formData)
         \<and> effects (createCustomer E prevState formData) = []"
proof -
  from assms have inv: "\<not> (rule_name (formData_get formData ''name'')
      \<and> rule_email (email_re E) (formData_get formData ''email'')
      \<and> is_string (formData_get formData ''image''))"
    by (simp add: is_string_def)
  from createCustomer_invalid(2) [OF inv, of prevState] assms
  have "''image'' \<in> error_fields (createCustomer E prevState formData)"
    by (simp add: is_string_def)
  moreover from createCustomer_invalid(1) [OF inv, of prevState]
  have "effects (createCustomer E prevState formData) = []"
    by (simp add: reports_validation_failure_effects)
  ultimately show ?thesis by simp
qed

subsection \<open>The amount in cents\<close>

text \<open>
  Claim C3 says that the amount bound into the statement is the submitted amount times
  100 exactly. It is not so for the amount \<^verbatim>\<open>0.07\<close>: the submission passes the validation,
  and the value bound is \<open>7881299347898369 / 2\<^sup>5\<^sup>0\<close> (printed \<^verbatim>\<open>7.000000000000001\<close>), which is
  neither 100 times the number \<^verbatim>\<open>0.07\<close> stands for nor 7.
\<close>

theorem amount_times_100_is_not_exact:
  "formData_get cents_form ''amount'' = JStr ''0.07''
   \<and> createInvoice sample_env no_state cents_form =
       \<lparr>outcome = Redirected ''/dashboard/invoices'',
        effects =
          [Sql \<lparr>sql_text = ''INSERT INTO invoices (customer_id, amount, status, date) VALUES ($1, $2, $3, $4)'',
                sql_params = [JStr ''c1'', JNum (Finite False 7881299347898369 (- 50)), JStr ''paid'',
                              JStr ''2023-11-14'']\<rparr>,
           RevalidatePath ''/dashboard/invoices''],
        detached = []\<rparr>
   \<and> \<not> exact_cents (JStr ''0.07'') (JNum (Finite False 7881299347898369 (- 50)))
   \<and> num_value (Finite False 7881299347898369 (- 50)) \<noteq> Some 7"
proof (intro conjI)
  show "formData_get cents_form ''amount'' = JStr ''0.07''"
    by (simp add: cents_form_fields)
  show "createInvoice sample_env no_state cents_form =
       \<lparr>outcome = Redirected ''/dashboard/invoices'',
        effects =
          [Sql \<lparr>sql_text = ''INSERT INTO invoices (customer_id, amount, status, date) VALUES ($1, $2, $3, $4)'',
                sql_params = [JStr ''c1'', JNum (Finite False 7881299347898369 (- 50)), JStr ''paid'',
                              JStr ''2023-11-14'']\<rparr>,
           RevalidatePath ''/dashboard/invoices''],
        detached = []\<rparr>"
    by (rule createInvoice_cents)
  show "\<not> exact_cents (JStr ''0.07'') (JNum (Finite False 7881299347898369 (- 50)))"
    by (simp add: exact_cents_def ToNumber_def StringToNumber_0_07 num_value_def signed_def)
  show "num_value (Finite False 7881299347898369 (- 50)) \<noteq> Some 7"
    by (simp add: num_value_def signed_def)
qed

text \<open>
  Claim C3, amended. For every invoice creation or update whose submission passes the
  validation, the one statement issued binds as amount the product, in binary64
  arithmetic (the exact product rounded to the nearest number, ties to even), of the
  submitted amount read as a number and 100. For the submitted amount \<^verbatim>\<open>12.50\<close> this is the
  number 1250, which is the submitted amount times 100 exactly.
\<close>

theorem amount_in_cents_is_the_rounded_product:
  "(safeParse (email_re E) CreateInvoice
      [(''customerId'', formData_get formData ''customerId''),
       (''amount'', formData_get formData ''amount''),
       (''status'', formData_get formData ''status'')] = SafeParseSuccess data
     \<longrightarrow> (\<exists>c s d. statements (effects (createInvoice E prevState formData)) =
            [\<lparr>sql_text = ''INSERT INTO invoices (customer_id, amount, status, date) VALUES ($1, $2, $3, $4)'',
              sql_params = [c, JNum (num_times (ToNumber (formData_get formData ''amount'')) (num_of_nat 100)),
                            s, d]\<rparr>]))
   \<and> (safeParse (email_re E) UpdateInvoice
      [(''customerId'', formData_get formData ''customerId''),
       (''amount'', formData_get formData ''amount''),
       (''status'', formData_get formData ''status'')] = SafeParseSuccess data
     \<longrightarrow> (\<exists>c s. statements (effects (updateInvoice E id' prevState formData)) =
            [\<lparr>sql_text = ''UPDATE invoices SET customer_id = $1, amount = $2, status = $3 WHERE id = $4'',
              sql_params = [c, JNum (num_times (ToNumber (formData_get formData ''amount'')) (num_of_nat 100)),
                            s, JStr id']\<rparr>]))
   \<and> num_times (ToNumber (JStr ''12.50'')) (num_of_nat 100) = num_of_nat 1250
   \<and> exact_cents (JStr ''12.50'') (JNum (num_of_nat 1250))"
proof (intro conjI impI)
  assume ok: "safeParse (email_re E) CreateInvoice
      [(''customerId'', formData_get formData ''customerId''),
       (''amount'', formData_get formData ''amount''),
       (''status'', formData_get formData ''status'')] = SafeParseSuccess data"
  have "is_string (formData_get formData ''customerId'') \<and> rule_amount (formData_get formData ''amount'')
      \<and> rule_status (formData_get formData ''status'')"
  proof (rule ccontr)
    assume "\<not> ?thesis"
    with ok show False by (simp add: safeParse_CreateInvoice)
  qed
  then have "createInvoice E prevState formData =
           createInvoice_validated E
             [(''customerId'', formData_get formData ''customerId''),
              (''amount'', JNum (ToNumber (formData_get formData ''amount''))),
              (''status'', formData_get formData ''status'')]"
    by (simp add: createInvoice_valid)
  then show "\<exists>c s d. statements (effects (createInvoice E prevState formData)) =
            [\<lparr>sql_text = ''INSERT INTO invoices (customer_id, amount, status, date) VALUES ($1, $2, $3, $4)'',
              sql_params = [c, JNum (num_times (ToNumber (formData_get formData ''amount'')) (num_of_nat 100)),
                            s, d]\<rparr>]"
    by (simp add: createInvoice_validated_eq split: option.splits)
next
  assume ok: "safeParse (email_re E) UpdateInvoice
      [(''customerId'', formData_get formData ''customerId''),
       (''amount'', formData_get formData ''amount''),
       (''status'', formData_get formData ''status'')] = SafeParseSuccess data"
  have "is_string (formData_get formData ''customerId'') \<and> rule_amount (formData_get formData ''amount'')
      \<and> rule_status (formData_get formData ''status'')"
  proof (rule ccontr)
    assume "\<not> ?thesis"
    with ok show False by (simp add: UpdateInvoice_shape safeParse_CreateInvoice)
  qed
  then have "updateInvoice E id' prevState formData =
           updateInvoice_validated E id'
             [(''customerId'', formData_get formData ''customerId''),
              (''amount'', JNum (ToNumber (formData_get formData ''amount''))),
              (''status'', formData_get formData ''status'')]"
    by (simp add: updateInvoice_valid)
  then show "\<exists>c s. statements (effects (updateInvoice E id' prevState formData)) =
            [\<lparr>sql_text = ''UPDATE invoices SET customer_id = $1, amount = $2, status = $3 WHERE id = $4'',
              sql_params = [c, JNum (num_times (ToNumber (formData_get formData ''amount'')) (num_of_nat 100)),
                            s, JStr id']\<rparr>]"
    by (simp add: updateInvoice_validated_eq split: option.splits)
next
  show "num_times (ToNumber (JStr ''12.50'')) (num_of_nat 100) = num_of_nat 1250"
    by (simp add: ToNumber_def StringToNumber_12_50 times_100_12_50 num_of_nat_1250)
  show "exact_cents (JStr ''12.50'') (JNum (num_of_nat 1250))"
    by (simp add: exact_cents_def ToNumber_def StringToNumber_12_50 num_of_nat_1250 num_value_def signed_def)
qed

theorem amount_in_cents_is_the_rounded_product_witness:
  "map (\<lambda>q. sql_params q ! 1) (statements (effects (createInvoice sample_env no_state invoice_form)))
     = [JNum (num_of_nat 1250)]
   \<and> map (\<lambda>q. sql_params q ! 1) (statements (effects (updateInvoice sample_env ''i1'' no_state invoice_form)))
     = [JNum (num_of_nat 1250)]"
proof -
  let ?data = "[(''customerId'', JStr ''c1''), (''amount'', JNum (Finite False 7036874417766400 (- 49))),
                (''status'', JStr ''pending'')]"
  have ok: "safeParse (email_re sample_env) CreateInvoice
      [(''customerId'', formData_get invoice_form ''customerId''),
       (''amount'', formData_get invoice_form ''amount''),
       (''status'', formData_get invoice_form ''status'')] = SafeParseSuccess ?data"
    by (simp add: safeParse_CreateInvoice invoice_form_fields sample_eval)
  then have ok': "safeParse (email_re sample_env) UpdateInvoice
      [(''customerId'', formData_get invoice_form ''customerId''),
       (''amount'', formData_get invoice_form ''amount''),
       (''status'', formData_get invoice_form ''status'')] = SafeParseSuccess ?data"
    by (simp add: UpdateInvoice_shape)
  note inst = amount_in_cents_is_the_rounded_product
    [where E = sample_env and formData = invoice_form and prevState = no_state and data = ?data
      and id' = "''i1''"]
  from inst ok obtain c s d where
    "statements (effects (createInvoice sample_env no_state invoice_form)) =
            [\<lparr>sql_text = ''INSERT INTO invoices (customer_id, amount, status, date) VALUES ($1, $2, $3, $4)'',
              sql_params = [c, JNum (num_times (ToNumber (formData_get invoice_form ''amount'')) (num_of_nat 100)),
                            s, d]\<rparr>]"
    by blast
  moreover from inst ok' obtain c' s' where
    "statements (effects (updateInvoice sample_env ''i1'' no_state invoice_form)) =
            [\<lparr>sql_text = ''UPDATE invoices SET customer_id = $1, amount = $2, status = $3 WHERE id = $4'',
              sql_params = [c', JNum (num_times (ToNumber (formData_get invoice_form ''amount'')) (num_of_nat 100)),
                            s', JStr ''i1'']\<rparr>]"
    by blast
  moreover from inst
  have "num_times (ToNumber (JStr ''12.50'')) (num_of_nat 100) = num_of_nat 1250"
    by blast
  ultimately show ?thesis by (simp add: invoice_form_fields)
qed

subsection \<open>Submissions that fail the validation\<close>

text \<open>
  Claim C4 says that a handler reports a validation failure whenever a rule of section
  4.1 fails, and the first of those rules has \<^verbatim>\<open>customerId\<close> a non-empty string. The schema
  asks for a string only: the submission with the empty \<^verbatim>\<open>customerId\<close> fails that rule, and
  \<^verbatim>\<open>createInvoice\<close> inserts the invoice, invalidates the path and redirects.
\<close>

theorem empty_customerId_passes_validation:
  "\<not> rule_customerId (formData_get no_customer_form ''customerId'')
   \<and> createInvoice sample_env no_state no_customer_form =
       \<lparr>outcome = Redirected ''/dashboard/invoices'',
        effects =
          [Sql \<lparr>sql_text = ''INSERT INTO invoices (customer_id, amount, status, date) VALUES ($1, $2, $3, $4)'',
                sql_params = [JStr [], JNum (Finite False 5497558138880000 (- 42)), JStr ''pending'',
                              JStr ''2023-11-14'']\<rparr>,
           RevalidatePath ''/dashboard/invoices''],
        detached = []\<rparr>
   \<and> \<not> reports_validation_failure ''Missing Fields. Failed to Create Invoice.''
         (createInvoice sample_env no_state no_customer_form)"
proof (intro conjI)
  show "\<not> rule_customerId (formData_get no_customer_form ''customerId'')"
    by (simp add: no_customer_form_fields sample_rules)
  show "createInvoice sample_env no_state no_customer_form =
       \<lparr>outcome = Redirected ''/dashboard/invoices'',
        effects =
          [Sql \<lparr>sql_text = ''INSERT INTO invoices (customer_id, amount, status, date) VALUES ($1, $2, $3, $4)'',
                sql_params = [JStr [], JNum (Finite False 5497558138880000 (- 42)), JStr ''pending'',
                              JStr ''2023-11-14'']\<rparr>,
           RevalidatePath ''/dashboard/invoices''],
        detached = []\<rparr>"
    by (rule createInvoice_no_customer)
  show "\<not> reports_validation_failure ''Missing Fields. Failed to Create Invoice.''
         (createInvoice sample_env no_state no_customer_form)"
    by (simp add: createInvoice_no_customer reports_validation_failure_def)
qed

text \<open>
  Claim C4, amended: the rule for \<^verbatim>\<open>customerId\<close> is that it is a string. For every create or
  update handler and every submission for which a rule of section 4.1 fails for a field
  of the handler's entity, the handler returns a state with a map of errors and the
  message \<^verbatim>\<open>Missing Fields. Failed to <Create|Update> <Entity>.\<close> for its entity, and issues
  no statement, invalidates no path and does not redirect; the map has an entry for
  every field whose rule fails (for the invoice handlers, for these fields only). And
  \<^verbatim>\<open>createInvoice\<close> on \<^verbatim>\<open>{customerId: 'c1', amount: '0', status: 'pending'}\<close> returns the
  errors \<^verbatim>\<open>{amount: ['Please enter an amount greater than $0.']}\<close> with the message
  \<^verbatim>\<open>Missing Fields. Failed to Create Invoice.\<close>
\<close>

theorem failed_validation_is_reported:
  "(\<not> (is_string (formData_get formData ''customerId'') \<and> rule_amount (formData_get formData ''amount'')
        \<and> rule_status (formData_get formData ''status''))
     \<longrightarrow> reports_validation_failure ''Missing Fields. Failed to Create Invoice.''
           (createInvoice E prevState formData)
         \<and> reports_validation_failure ''Missing Fields. Failed to Update Invoice.''
             (updateInvoice E id' prevState formData)
         \<and> error_fields (createInvoice E prevState formData) =
             (if is_string (formData_get formData ''customerId'') then {} else {''customerId''})
             \<union> (if rule_amount (formData_get formData ''amount'') then {} else {''amount''})
             \<union> (if rule_status (formData_get formData ''status'') then {} else {''status''})
         \<and> error_fields (updateInvoice E id' prevState formData) =
             error_fields (createInvoice E prevState formData))
   \<and> (\<not> (rule_name (formData_get formData ''name'') \<and> rule_email (email_re E) (formData_get formData ''email''))
     \<longrightarrow> reports_validation_failure ''Missing Fields. Failed to Create Customer.''
           (createCustomer E prevState formData)
         \<and> reports_validation_failure ''Missing Fields. Failed to Update Customer.''
             (updateCustomer E id' prevState formData)
         \<and> (if rule_name (formData_get formData ''name'') then {} else {''name''})
             \<union> (if rule_email (email_re E) (formData_get formData ''email'') then {} else {''email''})
             \<subseteq> error_fields (createCustomer E prevState formData)
               \<inter> error_fields (updateCustomer E id' prevState formData))
   \<and> (\<not> (rule_email (email_re E) (formData_get formData ''email'')
        \<and> rule_password (formData_get formData ''password''))
     \<longrightarrow> reports_validation_failure ''Missing Fields. Failed to Create User.''
           (createUser E prevState formData)
         \<and> (if rule_email (email_re E) (formData_get formData ''email'') then {} else {''email''})
             \<union> (if rule_password (formData_get formData ''password'') then {} else {''password''})
             \<subseteq> error_fields (createUser E prevState formData))
   \<and> createInvoice E prevState zero_amount_form =
       \<lparr>outcome = Returned \<lparr>errors = Some [(''amount'', [''Please enter an amount greater than $0.''])],
                            message = Some ''Missing Fields. Failed to Create Invoice.''\<rparr>,
        effects = [], detached = []\<rparr>"
proof (intro conjI impI)
  assume inv: "\<not> (is_string (formData_get formData ''customerId'') \<and> rule_amount (formData_get formData ''amount'')
        \<and> rule_status (formData_get formData ''status''))"
  show "reports_validation_failure ''Missing Fields. Failed to Create Invoice.''
           (createInvoice E prevState formData)"
    using inv by (rule createInvoice_invalid(1))
  show "reports_validation_failure ''Missing Fields. Failed to Update Invoice.''
             (updateInvoice E id' prevState formData)"
    using inv by (rule updateInvoice_invalid(1))
  show "error_fields (createInvoice E prevState formData) =
             (if is_string (formData_get formData ''customerId'') then {} else {''customerId''})
             \<union> (if rule_amount (formData_get formData ''amount'') then {} else {''amount''})
             \<union> (if rule_status (formData_get formData ''status'') then {} else {''status''})"
    using inv by (rule createInvoice_invalid(2))
  show "error_fields (updateInvoice E id' prevState formData) =
             error_fields (createInvoice E prevState formData)"
    by (simp only: createInvoice_invalid(2) [OF inv] updateInvoice_invalid(2) [OF inv])
next
  assume inv: "\<not> (rule_name (formData_get formData ''name'')
        \<and> rule_email (email_re E) (formData_get formData ''email''))"
  then have inv': "\<not> (rule_name (formData_get formData ''name'')
        \<and> rule_email (email_re E) (formData_get formData ''email'')
        \<and> is_string (formData_get formData ''image''))"
    by blast
  show "reports_validation_failure ''Missing Fields. Failed to Create Customer.''
           (createCustomer E prevState formData)"
    using inv' by (rule createCustomer_invalid(1))
  show "reports_validation_failure ''Missing Fields. Failed to Update Customer.''
             (updateCustomer E id' prevState formData)"
    by (rule updateCustomer_invalid(1))
  show "(if rule_name (formData_get formData ''name'') then {} else {''name''})
             \<union> (if rule_email (email_re E) (formData_get formData ''email'') then {} else {''email''})
             \<subseteq> error_fields (createCustomer E prevState formData)
               \<inter> error_fields (updateCustomer E id' prevState formData)"
    unfolding createCustomer_invalid(2) [OF inv'] updateCustomer_invalid(2)
    by auto
next
  assume inv: "\<not> (rule_email (email_re E) (formData_get formData ''email'')
        \<and> rule_password (formData_get formData ''password''))"
  then have inv': "\<not> (is_string (formData_get formData ''name'')
        \<and> rule_email (email_re E) (formData_get formData ''email'')
        \<and> rule_password (formData_get formData ''password''))"
    by blast
  show "reports_validation_failure ''Missing Fields. Failed to Create User.''
           (createUser E prevState formData)"
    using inv' by (rule createUser_invalid(1))
  show "(if rule_email (email_re E) (formData_get formData ''email'') then {} else {''email''})
             \<union> (if rule_password (formData_get formData ''password'') then {} else {''password''})
             \<subseteq> error_fields (createUser E prevState formData)"
    unfolding createUser_invalid(2) [OF inv']
    by auto
next
  show "createInvoice E prevState zero_amount_form =
       \<lparr>outcome = Returned \<lparr>errors = Some [(''amount'', [''Please enter an amount greater than $0.''])],
                            message = Some ''Missing Fields. Failed to Create Invoice.''\<rparr>,
        effects = [], detached = []\<rparr>"
    by (simp add: createInvoice_def safeParse_CreateInvoice validation_failed_def
          zero_amount_form_fields sample_rules rule_amount_0 fieldErrors_def add_field_error_def)
qed

theorem failed_validation_is_reported_witness:
  "reports_validation_failure ''Missing Fields. Failed to Create Invoice.''
     (createInvoice sample_env no_state zero_amount_form)
   \<and> reports_validation_failure ''Missing Fields. Failed to Update Invoice.''
       (updateInvoice sample_env ''i1'' no_state zero_amount_form)
   \<and> error_fields (createInvoice sample_env no_state zero_amount_form) = {''amount''}
   \<and> reports_validation_failure ''Missing Fields. Failed to Create Customer.''
       (createCustomer sample_env no_state short_name_form)
   \<and> reports_validation_failure ''Missing Fields. Failed to Update Customer.''
       (updateCustomer sample_env ''c1'' no_state short_name_form)
   \<and> ''name'' \<in> error_fields (createCustomer sample_env no_state short_name_form)
   \<and> reports_validation_failure ''Missing Fields. Failed to Create User.''
       (createUser sample_env no_state short_password_form)
   \<and> ''password'' \<in> error_fields (createUser sample_env no_state short_password_form)"
proof -
  have a: "\<not> (is_string (formData_get zero_amount_form ''customerId'')
        \<and> rule_amount (formData_get zero_amount_form ''amount'')
        \<and> rule_status (formData_get zero_amount_form ''status''))"
    by (simp add: zero_amount_form_fields rule_amount_0)
  have b: "\<not> (rule_name (formData_get short_name_form ''name'')
        \<and> rule_email (email_re sample_env) (formData_get short_name_form ''email''))"
    by (simp add: short_name_form_fields sample_rules)
  have c: "\<not> (rule_email (email_re sample_env) (formData_get short_password_form ''email'')
        \<and> rule_password (formData_get short_password_form ''password''))"
    by (simp add: short_password_form_fields sample_rules)
  from a failed_validation_is_reported
    [where E = sample_env and formData = zero_amount_form and prevState = no_state and id' = "''i1''"]
  have 1: "reports_validation_failure ''Missing Fields. Failed to Create Invoice.''
             (createInvoice sample_env no_state zero_amount_form)
     \<and> reports_validation_failure ''Missing Fields. Failed to Update Invoice.''
         (updateInvoice sample_env ''i1'' no_state zero_amount_form)
     \<and> error_fields (createInvoice sample_env no_state zero_amount_form) =
             (if is_string (formData_get zero_amount_form ''customerId'') then {} else {''customerId''})
             \<union> (if rule_amount (formData_get zero_amount_form ''amount'') then {} else {''amount''})
             \<union> (if rule_status (formData_get zero_amount_form ''status'') then {} else {''status''})"
    by blast
  from b failed_validation_is_reported
    [where E = sample_env and formData = short_name_form and prevState = no_state and id' = "''c1''"]
  have 2: "reports_validation_failure ''Missing Fields. Failed to Create Customer.''
           (createCustomer sample_env no_state short_name_form)
     \<and> reports_validation_failure ''Missing Fields. Failed to Update Customer.''
         (updateCustomer sample_env ''c1'' no_state short_name_form)
     \<and> (if rule_name (formData_get short_name_form ''name'') then {} else {''name''})
             \<union> (if rule_email (email_re sample_env) (formData_get short_name_form ''email'') then {} else {''email''})
             \<subseteq> error_fields (createCustomer sample_env no_state short_name_form)
               \<inter> error_fields (updateCustomer sample_env ''c1'' no_state short_name_form)"
    by blast
  from c failed_validation_is_reported
    [where E = sample_env and formData = short_password_form and prevState = no_state]
  have 3: "reports_validation_failure ''Missing Fields. Failed to Create User.''
           (createUser sample_env no_state short_password_form)
     \<and> (if rule_email (email_re sample_env) (formData_get short_password_form ''email'') then {} else {''email''})
             \<union> (if rule_password (formData_get short_password_form ''password'') then {} else {''password''})
             \<subseteq> error_fields (createUser sample_env no_state short_password_form)"
    by blast
  from 1 have d: "error_fields (createInvoice sample_env no_state zero_amount_form) = {''amount''}"
    by (simp add: zero_amount_form_fields sample_rules rule_amount_0)
  from 2 have e: "''name'' \<in> error_fields (createCustomer sample_env no_state short_name_form)"
    by (simp add: short_name_form_fields sample_rules sample_env_fields)
  from 3 have f: "''password'' \<in> error_fields (createUser sample_env no_state short_password_form)"
    by (simp add: short_password_form_fields sample_rules sample_env_fields)
  from 1 2 3 d e f show ?thesis by simp
qed

subsection \<open>Errors of the database\<close>

text \<open>
  Claim C5. In every mutation handler an error thrown by the statement is caught: when a
  statement the handler has issued throws, the handler returns the state with the message
  \<^verbatim>\<open>Database Error: Failed to <Create|Update|Delete> <Entity>.\<close> for its entity and operation
  and with no \<^verbatim>\<open>errors\<close>; and no handler completes by throwing an error, whatever the
  database does. For \<^verbatim>\<open>updateCustomer\<close>, which issues no statement whatever is submitted,
  the first part is stated of its statements after the validation.
\<close>

theorem persistence_errors_are_caught:
  "(Sql q \<in> set (effects (createInvoice E prevState formData)) \<and> sql E q = Some err
      \<longrightarrow> outcome (createInvoice E prevState formData)
            = Returned \<lparr>errors = None, message = Some ''Database Error: Failed to Create Invoice.''\<rparr>)
   \<and> (Sql q \<in> set (effects (updateInvoice E id' prevState formData)) \<and> sql E q = Some err
      \<longrightarrow> outcome (updateInvoice E id' prevState formData)
            = Returned \<lparr>errors = None, message = Some ''Database Error: Failed to Update Invoice.''\<rparr>)
   \<and> (Sql q \<in> set (effects (deleteInvoice E id')) \<and> sql E q = Some err
      \<longrightarrow> outcome (deleteInvoice E id')
            = Returned \<lparr>errors = None, message = Some ''Database Error: Failed to Delete Invoice.''\<rparr>)
   \<and> (Sql q \<in> set (effects (createCustomer E prevState formData)) \<and> sql E q = Some err
      \<longrightarrow> outcome (createCustomer E prevState formData)
            = Returned \<lparr>errors = None, message = Some ''Database Error: Failed to Create Customer.''\<rparr>)
   \<and> (Sql q \<in> set (effects (updateCustomer_validated E id' data)) \<and> sql E q = Some err
      \<longrightarrow> outcome (updateCustomer_validated E id' data)
            = Returned \<lparr>errors = None, message = Some ''Database Error: Failed to Update Customer.''\<rparr>)
   \<and> (Sql q \<in> set (effects (deleteCustomer E id')) \<and> sql E q = Some err
      \<longrightarrow> outcome (deleteCustomer E id')
            = Returned \<lparr>errors = None, message = Some ''Database Error: Failed to Delete Customer.''\<rparr>)
   \<and> (Sql q \<in> set (effects (createUser E prevState formData)) \<and> sql E q = Some err
      \<longrightarrow> outcome (createUser E prevState formData)
            = Returned \<lparr>errors = None, message = Some ''Database Error: Failed to Create User.''\<rparr>)
   \<and> outcome (createInvoice E prevState formData) \<noteq> Thrown e
   \<and> outcome (updateInvoice E id' prevState formData) \<noteq> Thrown e
   \<and> outcome (deleteInvoice E id') \<noteq> Thrown e
   \<and> outcome (createCustomer E prevState formData) \<noteq> Thrown e
   \<and> outcome (updateCustomer E id' prevState formData) \<noteq> Thrown e
   \<and> outcome (deleteCustomer E id') \<noteq> Thrown e
   \<and> outcome (createUser E prevState formData) \<noteq> Thrown e"
proof (intro conjI)
  show "Sql q \<in> set (effects (createInvoice E prevState formData)) \<and> sql E q = Some err
      \<longrightarrow> outcome (createInvoice E prevState formData)
            = Returned \<lparr>errors = None, message = Some ''Database Error: Failed to Create Invoice.''\<rparr>"
    unfolding createInvoice_def createInvoice_validated_def Let_def
    by (auto simp add: validation_failed_def split: SafeParseReturn.splits option.splits)
  show "Sql q \<in> set (effects (updateInvoice E id' prevState formData)) \<and> sql E q = Some err
      \<longrightarrow> outcome (updateInvoice E id' prevState formData)
            = Returned \<lparr>errors = None, message = Some ''Database Error: Failed to Update Invoice.''\<rparr>"
    unfolding updateInvoice_def updateInvoice_validated_def Let_def
    by (auto simp add: validation_failed_def split: SafeParseReturn.splits option.splits)
  show "Sql q \<in> set (effects (deleteInvoice E id')) \<and> sql E q = Some err
      \<longrightarrow> outcome (deleteInvoice E id')
            = Returned \<lparr>errors = None, message = Some ''Database Error: Failed to Delete Invoice.''\<rparr>"
    unfolding deleteInvoice_def Let_def
    by (auto split: option.splits)
  show "Sql q \<in> set (effects (createCustomer E prevState formData)) \<and> sql E q = Some err
      \<longrightarrow> outcome (createCustomer E prevState formData)
            = Returned \<lparr>errors = None, message = Some ''Database Error: Failed to Create Customer.''\<rparr>"
    unfolding createCustomer_def createCustomer_validated_def Let_def
    by (auto simp add: validation_failed_def split: SafeParseReturn.splits option.splits)
  show "Sql q \<in> set (effects (updateCustomer_validated E id' data)) \<and> sql E q = Some err
      \<longrightarrow> outcome (updateCustomer_validated E id' data)
            = Returned \<lparr>errors = None, message = Some ''Database Error: Failed to Update Customer.''\<rparr>"
    unfolding updateCustomer_validated_def Let_def
    by (auto split: option.splits)
  show "Sql q \<in> set (effects (deleteCustomer E id')) \<and> sql E q = Some err
      \<longrightarrow> outcome (deleteCustomer E id')
            = Returned \<lparr>errors = None, message = Some ''Database Error: Failed to Delete Customer.''\<rparr>"
    unfolding deleteCustomer_def Let_def
    by (auto split: option.splits)
  show "Sql q \<in> set (effects (createUser E prevState formData)) \<and> sql E q = Some err
      \<longrightarrow> outcome (createUser E prevState formData)
            = Returned \<lparr>errors = None, message = Some ''Database Error: Failed to Create User.''\<rparr>"
    unfolding createUser_def createUser_validated_def Let_def authenticate_def
    by (auto simp add: validation_failed_def split: SafeParseReturn.splits option.splits)
  show "outcome (createInvoice E prevState formData) \<noteq> Thrown e"
    unfolding createInvoice_def createInvoice_validated_def Let_def
    by (simp add: validation_failed_def split: SafeParseReturn.splits option.splits)
  show "outcome (updateInvoice E id' prevState formData) \<noteq> Thrown e"
    unfolding updateInvoice_def updateInvoice_validated_def Let_def
    by (simp add: validation_failed_def split: SafeParseReturn.splits option.splits)
  show "outcome (deleteInvoice E id') \<noteq> Thrown e"
    unfolding deleteInvoice_def Let_def
    by (simp split: option.splits)
  show "outcome (createCustomer E prevState formData) \<noteq> Thrown e"
    unfolding createCustomer_def createCustomer_validated_def Let_def
    by (simp add: validation_failed_def split: SafeParseReturn.splits option.splits)
  show "outcome (updateCustomer E id' prevState formData) \<noteq> Thrown e"
    unfolding updateCustomer_def updateCustomer_validated_def Let_def
    by (simp add: validation_failed_def split: SafeParseReturn.splits option.splits)
  show "outcome (deleteCustomer E id') \<noteq> Thrown e"
    unfolding deleteCustomer_def Let_def
    by (simp split: option.splits)
  show "outcome (createUser E prevState formData) \<noteq> Thrown e"
    unfolding createUser_def createUser_validated_def Let_def
    by (simp add: validation_failed_def split: SafeParseReturn.splits option.splits)
qed

theorem persistence_errors_are_caught_witness:
  "outcome (createInvoice failing_db no_state invoice_form)
     = Returned \<lparr>errors = None, message = Some ''Database Error: Failed to Create Invoice.''\<rparr>
   \<and> outcome (updateInvoice failing_db ''i1'' no_state invoice_form)
     = Returned \<lparr>errors = None, message = Some ''Database Error: Failed to Update Invoice.''\<rparr>
   \<and> outcome (deleteInvoice failing_db ''i1'')
     = Returned \<lparr>errors = None, message = Some ''Database Error: Failed to Delete Invoice.''\<rparr>
   \<and> outcome (createCustomer failing_db no_state jane_form_with_image)
     = Returned \<lparr>errors = None, message = Some ''Database Error: Failed to Create Customer.''\<rparr>
   \<and> outcome (updateCustomer_validated failing_db ''c1''
        [(''name'', JStr ''Jane Doe''), (''email'', JStr ''jane@x.com''), (''image'', JStr ''/customers/jane.png'')])
     = Returned \<lparr>errors = None, message = Some ''Database Error: Failed to Update Customer.''\<rparr>
   \<and> outcome (deleteCustomer failing_db ''c1'')
     = Returned \<lparr>errors = None, message = Some ''Database Error: Failed to Delete Customer.''\<rparr>
   \<and> outcome (createUser failing_db no_state user_form)
     = Returned \<lparr>errors = None, message = Some ''Database Error: Failed to Create User.''\<rparr>"
proof (intro conjI)
  let ?err = "OtherError ''connection refused''"
  let ?q1 = "\<lparr>sql_text = ''INSERT INTO invoices (customer_id, amount, status, date) VALUES ($1, $2, $3, $4)'',
              sql_params = [JStr ''c1'', JNum (Finite False 5497558138880000 (- 42)), JStr ''pending'',
                            JStr ''2023-11-14'']\<rparr>"
  have "Sql ?q1 \<in> set (effects (createInvoice failing_db no_state invoice_form)) \<and> sql failing_db ?q1 = Some ?err"
    by (simp add: createInvoice_failing failing_db_fields)
  then show "outcome (createInvoice failing_db no_state invoice_form)
     = Returned \<lparr>errors = None, message = Some ''Database Error: Failed to Create Invoice.''\<rparr>"
    using persistence_errors_are_caught [where E = failing_db and q = ?q1 and err = ?err
        and prevState = no_state and formData = invoice_form]
    by blast
  let ?q2 = "\<lparr>sql_text = ''UPDATE invoices SET customer_id = $1, amount = $2, status = $3 WHERE id = $4'',
              sql_params = [JStr ''c1'', JNum (Finite False 5497558138880000 (- 42)), JStr ''pending'',
                            JStr ''i1'']\<rparr>"
  have "Sql ?q2 \<in> set (effects (updateInvoice failing_db ''i1'' no_state invoice_form)) \<and> sql failing_db ?q2 = Some ?err"
    by (simp add: updateInvoice_failing failing_db_fields)
  then show "outcome (updateInvoice failing_db ''i1'' no_state invoice_form)
     = Returned \<lparr>errors = None, message = Some ''Database Error: Failed to Update Invoice.''\<rparr>"
    using persistence_errors_are_caught [where E = failing_db and q = ?q2 and err = ?err
        and prevState = no_state and formData = invoice_form and id' = "''i1''"]
    by blast
  let ?q3 = "\<lparr>sql_text = ''DELETE FROM invoices WHERE id = $1'', sql_params = [JStr ''i1'']\<rparr>"
  have "Sql ?q3 \<in> set (effects (deleteInvoice failing_db ''i1'')) \<and> sql failing_db ?q3 = Some ?err"
    by (simp add: deleteInvoice_def failing_db_fields)
  then show "outcome (deleteInvoice failing_db ''i1'')
     = Returned \<lparr>errors = None, message = Some ''Database Error: Failed to Delete Invoice.''\<rparr>"
    using persistence_errors_are_caught [where E = failing_db and q = ?q3 and err = ?err
        and id' = "''i1''"]
    by blast
  let ?q4 = "\<lparr>sql_text = ''INSERT INTO customers (name, email, image_url) VALUES ($1, $2, $3 )'',
              sql_params = [JStr ''Jane Doe'', JStr ''jane@x.com'', JStr ''/customers/jane.png'']\<rparr>"
  have "Sql ?q4 \<in> set (effects (createCustomer failing_db no_state jane_form_with_image)) \<and> sql failing_db ?q4 = Some ?err"
    by (simp add: createCustomer_failing failing_db_fields)
  then show "outcome (createCustomer failing_db no_state jane_form_with_image)
     = Returned \<lparr>errors = None, message = Some ''Database Error: Failed to Create Customer.''\<rparr>"
    using persistence_errors_are_caught [where E = failing_db and q = ?q4 and err = ?err
        and prevState = no_state and formData = jane_form_with_image]
    by blast
  let ?data = "[(''name'', JStr ''Jane Doe''), (''email'', JStr ''jane@x.com''), (''image'', JStr ''/customers/jane.png'')]"
  let ?q5 = "\<lparr>sql_text = ''UPDATE customers SET name = $1, email = $2, image_url = $3 WHERE id = $4'',
              sql_params = [JStr ''Jane Doe'', JStr ''jane@x.com'', JStr ''/customers/jane.png'', JStr ''c1'']\<rparr>"
  have "Sql ?q5 \<in> set (effects (updateCustomer_validated failing_db ''c1'' ?data)) \<and> sql failing_db ?q5 = Some ?err"
    by (simp add: updateCustomer_validated_def get_prop_def failing_db_fields)
  then show "outcome (updateCustomer_validated failing_db ''c1'' ?data)
     = Returned \<lparr>errors = None, message = Some ''Database Error: Failed to Update Customer.''\<rparr>"
    using persistence_errors_are_caught [where E = failing_db and q = ?q5 and err = ?err
        and id' = "''c1''" and data = ?data]
    by blast
  let ?q6 = "\<lparr>sql_text = ''DELETE FROM customers WHERE id = $1'', sql_params = [JStr ''c1'']\<rparr>"
  have "Sql ?q6 \<in> set (effects (deleteCustomer failing_db ''c1'')) \<and> sql failing_db ?q6 = Some ?err"
    by (simp add: deleteCustomer_def failing_db_fields)
  then show "outcome (deleteCustomer failing_db ''c1'')
     = Returned \<lparr>errors = None, message = Some ''Database Error: Failed to Delete Customer.''\<rparr>"
    using persistence_errors_are_caught [where E = failing_db and q = ?q6 and err = ?err
        and id' = "''c1''"]
    by blast
  let ?q7 = "\<lparr>sql_text = ''INSERT INTO users (email, password, name) VALUES ($1, $2, $3 )'',
              sql_params = [JStr ''jane@x.com'', JStr ''$2b$10$abcdefghijklmnopqrstuu'', JStr ''Jane Doe'']\<rparr>"
  have "Sql ?q7 \<in> set (effects (createUser failing_db no_state user_form)) \<and> sql failing_db ?q7 = Some ?err"
    by (simp add: createUser_failing failing_db_fields)
  then show "outcome (createUser failing_db no_state user_form)
     = Returned \<lparr>errors = None, message = Some ''Database Error: Failed to Create User.''\<rparr>"
    using persistence_errors_are_caught [where E = failing_db and q = ?q7 and err = ?err
        and prevState = no_state and formData = user_form]
    by blast
qed

subsection \<open>Authentication errors\<close>

text \<open>
  Claim C6. When the provider call throws an \<^verbatim>\<open>AuthError\<close> of type \<^verbatim>\<open>CredentialsSignin\<close>,
  \<^verbatim>\<open>authenticate\<close> returns \<^verbatim>\<open>Invalid credentials.\<close>; when it throws an \<^verbatim>\<open>AuthError\<close> of any
  other type, \<^verbatim>\<open>authenticate\<close> returns \<^verbatim>\<open>Something went wrong.\<close>; when it throws an error
  that is no \<^verbatim>\<open>AuthError\<close>, \<^verbatim>\<open>authenticate\<close> throws that same error.
\<close>

theorem authenticate_translates_errors:
  "(signIn E ''credentials'' formData = Some (AuthError ''CredentialsSignin'')
      \<longrightarrow> outcome (authenticate E prevState formData) = Returned (Some ''Invalid credentials.''))
   \<and> (signIn E ''credentials'' formData = Some (AuthError kind) \<and> kind \<noteq> ''CredentialsSignin''
      \<longrightarrow> outcome (authenticate E prevState formData) = Returned (Some ''Something went wrong.''))
   \<and> (signIn E ''credentials'' formData = Some (OtherError x)
      \<longrightarrow> outcome (authenticate E prevState formData) = Thrown (OtherError x))"
  by (simp add: authenticate_def)

theorem authenticate_translates_errors_witness:
  "outcome (authenticate sample_env None [(''email'', Text ''jane@x.com''), (''password'', Text ''12345678'')])
     = Returned (Some ''Invalid credentials.'')
   \<and> outcome (authenticate (sample_env\<lparr>signIn := \<lambda>p f. Some (AuthError ''CallbackRouteError'')\<rparr>) None [])
     = Returned (Some ''Something went wrong.'')
   \<and> outcome (authenticate (sample_env\<lparr>signIn := \<lambda>p f. Some (OtherError ''NEXT_REDIRECT'')\<rparr>) None [])
     = Thrown (OtherError ''NEXT_REDIRECT'')"
proof (intro conjI)
  show "outcome (authenticate sample_env None [(''email'', Text ''jane@x.com''), (''password'', Text ''12345678'')])
          = Returned (Some ''Invalid credentials.'')"
    using authenticate_translates_errors [where E = sample_env and prevState = None
      and formData = "[(''email'', Text ''jane@x.com''), (''password'', Text ''12345678'')]"]
    by (simp add: sample_env_def)
  show "outcome (authenticate (sample_env\<lparr>signIn := \<lambda>p f. Some (AuthError ''CallbackRouteError'')\<rparr>) None [])
          = Returned (Some ''Something went wrong.'')"
    using authenticate_translates_errors [where E = "sample_env\<lparr>signIn := \<lambda>p f. Some (AuthError ''CallbackRouteError'')\<rparr>"
      and prevState = None and formData = "[]" and kind = "''CallbackRouteError''"]
    by simp
  show "outcome (authenticate (sample_env\<lparr>signIn := \<lambda>p f. Some (OtherError ''NEXT_REDIRECT'')\<rparr>) None [])
          = Thrown (OtherError ''NEXT_REDIRECT'')"
    using authenticate_translates_errors [where E = "sample_env\<lparr>signIn := \<lambda>p f. Some (OtherError ''NEXT_REDIRECT'')\<rparr>"
      and prevState = None and formData = "[]" and x = "''NEXT_REDIRECT''"]
    by simp
qed

subsection \<open>The date of an invoice\<close>

text \<open>
  Claim C7. When the submission passes the validation, \<^verbatim>\<open>createInvoice\<close> issues one
  statement, the \<^verbatim>\<open>INSERT\<close>, and the date bound into it is the calendar date (in UTC) of the
  clock at the time of the call, as \<^verbatim>\<open>YYYY-MM-DD\<close>. A \<^verbatim>\<open>date\<close> in the submission is never
  read: two submissions with the same \<^verbatim>\<open>customerId\<close>, \<^verbatim>\<open>amount\<close> and \<^verbatim>\<open>status\<close> give the
  same run.
\<close>

theorem invoice_date_is_the_current_date:
  "(safeParse (email_re E) CreateInvoice
      [(''customerId'', formData_get formData ''customerId''),
       (''amount'', formData_get formData ''amount''),
       (''status'', formData_get formData ''status'')] = SafeParseSuccess data
     \<longrightarrow> (\<exists>c a s. statements (effects (createInvoice E prevState formData)) =
            [\<lparr>sql_text = ''INSERT INTO invoices (customer_id, amount, status, date) VALUES ($1, $2, $3, $4)'',
              sql_params = [c, a, s, JStr (iso_date (now E))]\<rparr>]))
   \<and> (formData_get formData' ''customerId'' = formData_get formData ''customerId''
      \<and> formData_get formData' ''amount'' = formData_get formData ''amount''
      \<and> formData_get formData' ''status'' = formData_get formData ''status''
     \<longrightarrow> createInvoice E prevState formData' = createInvoice E prevState formData)"
proof (intro conjI impI)
  assume ok: "safeParse (email_re E) CreateInvoice
      [(''customerId'', formData_get formData ''customerId''),
       (''amount'', formData_get formData ''amount''),
       (''status'', formData_get formData ''status'')] = SafeParseSuccess data"
  have valid: "is_string (formData_get formData ''customerId'') \<and> rule_amount (formData_get formData ''amount'')
      \<and> rule_status (formData_get formData ''status'')"
  proof (rule ccontr)
    assume "\<not> ?thesis"
    with ok show False by (simp add: safeParse_CreateInvoice)
  qed
  then have "createInvoice E prevState formData =
           createInvoice_validated E
             [(''customerId'', formData_get formData ''customerId''),
              (''amount'', JNum (ToNumber (formData_get formData ''amount''))),
              (''status'', formData_get formData ''status'')]"
    by (simp add: createInvoice_valid)
  then show "\<exists>c a s. statements (effects (createInvoice E prevState formData)) =
            [\<lparr>sql_text = ''INSERT INTO invoices (customer_id, amount, status, date) VALUES ($1, $2, $3, $4)'',
              sql_params = [c, a, s, JStr (iso_date (now E))]\<rparr>]"
    by (simp add: createInvoice_validated_eq split: option.splits)
next
  assume "formData_get formData' ''customerId'' = formData_get formData ''customerId''
      \<and> formData_get formData' ''amount'' = formData_get formData ''amount''
      \<and> formData_get formData' ''status'' = formData_get formData ''status''"
  then show "createInvoice E prevState formData' = createInvoice E prevState formData"
    by (simp add: createInvoice_def)
qed

theorem invoice_date_is_the_current_date_witness:
  "formData_get dated_form ''date'' = JStr ''1999-12-31''
   \<and> map (\<lambda>q. sql_params q ! 3) (statements (effects (createInvoice sample_env no_state dated_form)))
       = [JStr ''2023-11-14'']
   \<and> createInvoice sample_env no_state invoice_form = createInvoice sample_env no_state dated_form"
proof -
  let ?data = "[(''customerId'', JStr ''c1''), (''amount'', JNum (Finite False 7036874417766400 (- 49))),
                (''status'', JStr ''pending'')]"
  have ok: "safeParse (email_re sample_env) CreateInvoice
      [(''customerId'', formData_get dated_form ''customerId''),
       (''amount'', formData_get dated_form ''amount''),
       (''status'', formData_get dated_form ''status'')] = SafeParseSuccess ?data"
    by (simp add: safeParse_CreateInvoice dated_form_fields sample_eval)
  have same: "formData_get invoice_form ''customerId'' = formData_get dated_form ''customerId''
      \<and> formData_get invoice_form ''amount'' = formData_get dated_form ''amount''
      \<and> formData_get invoice_form ''status'' = formData_get dated_form ''status''"
    by (simp add: dated_form_fields invoice_form_fields)
  note inst = invoice_date_is_the_current_date
    [where E = sample_env and formData = dated_form and formData' = invoice_form
      and prevState = no_state and data = ?data]
  from inst ok obtain c a s where
    "statements (effects (createInvoice sample_env no_state dated_form)) =
            [\<lparr>sql_text = ''INSERT INTO invoices (customer_id, amount, status, date) VALUES ($1, $2, $3, $4)'',
              sql_params = [c, a, s, JStr (iso_date (now sample_env))]\<rparr>]"
    by blast
  then have "map (\<lambda>q. sql_params q ! 3) (statements (effects (createInvoice sample_env no_state dated_form)))
       = [JStr ''2023-11-14'']"
    by (simp add: sample_env_fields iso_date_sample)
  moreover from inst same
  have "createInvoice sample_env no_state invoice_form = createInvoice sample_env no_state dated_form"
    by blast
  ultimately show ?thesis by (simp add: dated_form_fields)
qed

subsection \<open>User creation and the call of \<^verbatim>\<open>authenticate\<close>\<close>

text \<open>
  Claim C8 says that \<^verbatim>\<open>createUser\<close> awaits \<^verbatim>\<open>authenticate\<close> before it invalidates the path
  and redirects. The call in \<^verbatim>\<open>createUser\<close> has no \<^verbatim>\<open>await\<close>, unlike the calls of
  \<^verbatim>\<open>bcrypt.hash\<close>, \<^verbatim>\<open>sql\<close> and \<^verbatim>\<open>signIn\<close>. What the code does, with a provider whose call
  throws an error that is no \<^verbatim>\<open>AuthError\<close>: \<^verbatim>\<open>createUser\<close> invalidates \<^verbatim>\<open>/dashboard\<close> and
  redirects there while the call of \<^verbatim>\<open>authenticate\<close> is still detached, and the error
  that call throws reaches nobody; had the call been awaited, \<^verbatim>\<open>createUser\<close> would have
  thrown that error after the provider call, with no invalidation and no redirect.
\<close>

theorem createUser_does_not_await_authenticate:
  "createUser (sample_env\<lparr>signIn := \<lambda>p f. Some (OtherError ''NEXT_REDIRECT'')\<rparr>) no_state user_form =
     \<lparr>outcome = Redirected ''/dashboard'',
      effects =
        [ConsoleLog [JStr ''jane@x.com'', JStr ''$2b$10$abcdefghijklmnopqrstuu''],
         Sql \<lparr>sql_text = ''INSERT INTO users (email, password, name) VALUES ($1, $2, $3 )'',
              sql_params = [JStr ''jane@x.com'', JStr ''$2b$10$abcdefghijklmnopqrstuu'', JStr ''Jane Doe'']\<rparr>,
         SignIn ''credentials'' user_form,
         RevalidatePath ''/dashboard''],
      detached = [Thrown (OtherError ''NEXT_REDIRECT'')]\<rparr>
   \<and> createUser_validated_awaiting (sample_env\<lparr>signIn := \<lambda>p f. Some (OtherError ''NEXT_REDIRECT'')\<rparr>) user_form
       [(''name'', JStr ''Jane Doe''), (''email'', JStr ''jane@x.com''), (''password'', JStr ''correct horse'')] =
     \<lparr>outcome = Thrown (OtherError ''NEXT_REDIRECT''),
      effects =
        [ConsoleLog [JStr ''jane@x.com'', JStr ''$2b$10$abcdefghijklmnopqrstuu''],
         Sql \<lparr>sql_text = ''INSERT INTO users (email, password, name) VALUES ($1, $2, $3 )'',
              sql_params = [JStr ''jane@x.com'', JStr ''$2b$10$abcdefghijklmnopqrstuu'', JStr ''Jane Doe'']\<rparr>,
         SignIn ''credentials'' user_form],
      detached = []\<rparr>"
proof (intro conjI)
  show "createUser (sample_env\<lparr>signIn := \<lambda>p f. Some (OtherError ''NEXT_REDIRECT'')\<rparr>) no_state user_form =
     \<lparr>outcome = Redirected ''/dashboard'',
      effects =
        [ConsoleLog [JStr ''jane@x.com'', JStr ''$2b$10$abcdefghijklmnopqrstuu''],
         Sql \<lparr>sql_text = ''INSERT INTO users (email, password, name) VALUES ($1, $2, $3 )'',
              sql_params = [JStr ''jane@x.com'', JStr ''$2b$10$abcdefghijklmnopqrstuu'', JStr ''Jane Doe'']\<rparr>,
         SignIn ''credentials'' user_form,
         RevalidatePath ''/dashboard''],
      detached = [Thrown (OtherError ''NEXT_REDIRECT'')]\<rparr>"
    by (simp add: createUser_valid createUser_validated_eq user_form_fields sample_eval authenticate_def)
  show "createUser_validated_awaiting (sample_env\<lparr>signIn := \<lambda>p f. Some (OtherError ''NEXT_REDIRECT'')\<rparr>) user_form
       [(''name'', JStr ''Jane Doe''), (''email'', JStr ''jane@x.com''), (''password'', JStr ''correct horse'')] =
     \<lparr>outcome = Thrown (OtherError ''NEXT_REDIRECT''),
      effects =
        [ConsoleLog [JStr ''jane@x.com'', JStr ''$2b$10$abcdefghijklmnopqrstuu''],
         Sql \<lparr>sql_text = ''INSERT INTO users (email, password, name) VALUES ($1, $2, $3 )'',
              sql_params = [JStr ''jane@x.com'', JStr ''$2b$10$abcdefghijklmnopqrstuu'', JStr ''Jane Doe'']\<rparr>,
         SignIn ''credentials'' user_form],
      detached = []\<rparr>"
    by (simp add: createUser_validated_awaiting_def get_prop_def sample_eval authenticate_def Let_def)
qed

subsection \<open>The previous state\<close>

text \<open>
  Claim C9. No handler reads \<^verbatim>\<open>prevState\<close>: two calls that differ in it only are the same
  run, with the same returned value, the same effects in the same order and the same
  detached calls.
\<close>

theorem prevState_is_never_read:
  "createInvoice E prevState formData = createInvoice E prevState' formData
   \<and> updateInvoice E id' prevState formData = updateInvoice E id' prevState' formData
   \<and> createCustomer E prevState formData = createCustomer E prevState' formData
   \<and> updateCustomer E id' prevState formData = updateCustomer E id' prevState' formData
   \<and> createUser E prevState formData = createUser E prevState' formData
   \<and> authenticate E err formData = authenticate E err' formData"
  unfolding createInvoice_def updateInvoice_def createCustomer_def updateCustomer_def
    createUser_def authenticate_def
  by (intro conjI refl)

subsection \<open>User creation whatever \<^verbatim>\<open>authenticate\<close> does\<close>

text \<open>
  Claim C10. Once the \<^verbatim>\<open>INSERT\<close> of \<^verbatim>\<open>createUser\<close> has succeeded, the handler completes by
  the redirect to \<^verbatim>\<open>/dashboard\<close>, the invalidation of \<^verbatim>\<open>/dashboard\<close> being its last effect,
  and neither the way it completes nor its effects depend on what the provider call, and
  so \<^verbatim>\<open>authenticate\<close>, does.
\<close>

theorem createUser_redirects_whatever_authenticate_does:
  "Sql q \<in> set (effects (createUser E prevState formData)) \<and> sql E q = None
     \<longrightarrow> outcome (createUser E prevState formData) = Redirected ''/dashboard''
         \<and> last (effects (createUser E prevState formData)) = RevalidatePath ''/dashboard''
         \<and> outcome (createUser (E\<lparr>signIn := provider\<rparr>) prevState formData)
             = outcome (createUser E prevState formData)
         \<and> effects (createUser (E\<lparr>signIn := provider\<rparr>) prevState formData)
             = effects (createUser E prevState formData)"
  unfolding createUser_def createUser_validated_def authenticate_def Let_def
  by (auto simp add: validation_failed_def split: SafeParseReturn.splits option.splits)

theorem createUser_redirects_whatever_authenticate_does_witness:
  "outcome (createUser sample_env no_state user_form) = Redirected ''/dashboard''
   \<and> last (effects (createUser sample_env no_state user_form)) = RevalidatePath ''/dashboard''
   \<and> outcome (createUser (sample_env\<lparr>signIn := \<lambda>p f. Some (OtherError ''NEXT_REDIRECT'')\<rparr>) no_state user_form)
       = Redirected ''/dashboard''
   \<and> effects (createUser (sample_env\<lparr>signIn := \<lambda>p f. Some (OtherError ''NEXT_REDIRECT'')\<rparr>) no_state user_form)
       = effects (createUser sample_env no_state user_form)"
proof -
  let ?q = "\<lparr>sql_text = ''INSERT INTO users (email, password, name) VALUES ($1, $2, $3 )'',
             sql_params = [JStr ''jane@x.com'', JStr ''$2b$10$abcdefghijklmnopqrstuu'', JStr ''Jane Doe'']\<rparr>"
  have "Sql ?q \<in> set (effects (createUser sample_env no_state user_form)) \<and> sql sample_env ?q = None"
    by (simp add: createUser_sample sample_env_fields)
  then show ?thesis
    using createUser_redirects_whatever_authenticate_does
      [where E = sample_env and q = ?q and prevState = no_state and formData = user_form
        and provider = "\<lambda>p f. Some (OtherError ''NEXT_REDIRECT'')"]
    by simp
qed

end
